theory Spec2Isabelle
  imports Complex_Main
begin

section \<open>Python string primitives\<close>

text \<open>
  Python strings are modelled as \<^typ>\<open>string\<close>, one \<^typ>\<open>char\<close> per code point.
  The character classes below follow Python on ASCII text, which is the domain of the model.
\<close>

definition is_space :: "char \<Rightarrow> bool" where
  \<comment> \<open>\<open>str.isspace\<close> and the regex class \<open>\s\<close> on ASCII: TAB, LF, VT, FF, CR, FS, GS, RS, US, SP\<close>
  "is_space c = (c \<in> set [CHR 0x09, CHR 0x0A, CHR 0x0B, CHR 0x0C, CHR 0x0D,
                            CHR 0x1C, CHR 0x1D, CHR 0x1E, CHR 0x1F, CHR 0x20])"

definition upper_letters :: string where
  "upper_letters = ''ABCDEFGHIJKLMNOPQRSTUVWXYZ''"

definition lower_letters :: string where
  "lower_letters = ''abcdefghijklmnopqrstuvwxyz''"

definition is_upper_char :: "char \<Rightarrow> bool" where
  "is_upper_char c = (c \<in> set upper_letters)"

definition is_lower_char :: "char \<Rightarrow> bool" where
  "is_lower_char c = (c \<in> set lower_letters)"

definition is_digit :: "char \<Rightarrow> bool" where
  \<comment> \<open>the regex class \<open>\d\<close> on ASCII\<close>
  "is_digit c = (c \<in> set ''0123456789'')"

definition is_word_char :: "char \<Rightarrow> bool" where
  \<comment> \<open>the regex class \<open>\w\<close> on ASCII: letters, digits and the underscore\<close>
  "is_word_char c = (is_upper_char c \<or> is_lower_char c \<or> is_digit c \<or> c = CHR ''_'')"

definition lower_char :: "char \<Rightarrow> char" where
  "lower_char c = (case map_of (zip upper_letters lower_letters) c of Some d \<Rightarrow> d | None \<Rightarrow> c)"

definition lower :: "string \<Rightarrow> string" where
  \<comment> \<open>\<open>str.lower\<close>\<close>
  "lower s = map lower_char s"

definition isupper :: "string \<Rightarrow> bool" where
  \<comment> \<open>\<open>str.isupper\<close>: at least one cased character and no lower-case one\<close>
  "isupper s = ((\<exists>c \<in> set s. is_upper_char c) \<and> (\<forall>c \<in> set s. \<not> is_lower_char c))"

definition strip :: "string \<Rightarrow> string" where
  \<comment> \<open>\<open>str.strip()\<close>\<close>
  "strip s = rev (dropWhile is_space (rev (dropWhile is_space s)))"

fun split_on :: "char \<Rightarrow> string \<Rightarrow> string list" where
  \<comment> \<open>\<open>str.split(sep)\<close> for a one-character separator: always at least one piece\<close>
  "split_on sep [] = [[]]"
| "split_on sep (c # cs) =
     (if c = sep then [] # split_on sep cs
      else (case split_on sep cs of
              [] \<Rightarrow> [[c]]
            | w # ws \<Rightarrow> (c # w) # ws))"

definition split_ws :: "string \<Rightarrow> string list" where
  \<comment> \<open>\<open>str.split()\<close>: maximal runs of non-whitespace characters\<close>
  "split_ws s = filter (\<lambda>w. w \<noteq> [])
      (split_on (CHR '' '') (map (\<lambda>c. if is_space c then CHR '' '' else c) s))"

fun join :: "string \<Rightarrow> string list \<Rightarrow> string" where
  \<comment> \<open>\<open>sep.join(parts)\<close>\<close>
  "join sep [] = []"
| "join sep [x] = x"
| "join sep (x # y # ys) = x @ sep @ join sep (y # ys)"

fun startswith :: "string \<Rightarrow> string \<Rightarrow> bool" where
  \<comment> \<open>\<open>s.startswith(p)\<close>, written \<open>startswith s p\<close>\<close>
  "startswith s [] = True"
| "startswith [] (p # ps) = False"
| "startswith (c # cs) (p # ps) = (c = p \<and> startswith cs ps)"

definition endswith :: "string \<Rightarrow> string \<Rightarrow> bool" where
  "endswith s p = startswith (rev s) (rev p)"

fun contains :: "string \<Rightarrow> string \<Rightarrow> bool" where
  \<comment> \<open>\<open>p in s\<close>, written \<open>contains s p\<close>\<close>
  "contains [] p = (p = [])"
| "contains (c # cs) p = (startswith (c # cs) p \<or> contains cs p)"

fun rfind_from :: "char \<Rightarrow> string \<Rightarrow> nat \<Rightarrow> int \<Rightarrow> int" where
  "rfind_from ch [] i acc = acc"
| "rfind_from ch (c # cs) i acc = rfind_from ch cs (Suc i) (if c = ch then int i else acc)"

definition rfind :: "string \<Rightarrow> char \<Rightarrow> int" where
  \<comment> \<open>\<open>s.rfind(ch)\<close>: the highest index of \<open>ch\<close>, or \<open>-1\<close>\<close>
  "rfind s ch = rfind_from ch s 0 (- 1)"

definition digit_char :: "nat \<Rightarrow> char" where
  "digit_char d = ''0123456789'' ! d"

fun str_of_nat :: "nat \<Rightarrow> string" where
  \<comment> \<open>\<open>str(n)\<close> for a non-negative integer\<close>
  "str_of_nat n = (if n < 10 then [digit_char n] else str_of_nat (n div 10) @ [digit_char (n mod 10)])"

declare str_of_nat.simps [simp del]

section \<open>Data models (\<open>models/data_models.py\<close>)\<close>

record ResearchPaper =
  p_id :: string
  p_title :: string
  p_authors :: "string list"
  p_abstract :: string
  p_content :: string
  p_doi :: string
  p_url :: string
  p_topics :: "string list"

text \<open>The dict a Summarizer call returns.\<close>

record summary =
  s_summary :: string
  s_paper_id :: string
  s_length :: nat
  s_method :: string
  s_key_insights :: "string list"
  s_topics :: "string list"
  s_title :: string

section \<open>Summarizer (\<open>agents/summarization_agent.py\<close>)\<close>

text \<open>
  What the agent takes from outside the repository is a field of the record below:
  the transformer pipeline (\<open>self.summarizer\<close>, \<open>None\<close> when the attribute was never set; the
  call gives \<open>None\<close> when it raises or returns an empty result), NLTK's \<open>sent_tokenize\<close>
  (\<open>None\<close> when the import or the call raises, which the bare \<open>except\<close> absorbs),
  \<open>re.findall\<close> with \<open>re.IGNORECASE\<close> on a pattern and a text, and the floating-point score
  \<open>_score_sentences\<close> gives the sentence at an index (any linear order serves; rationals here).
\<close>

record SummarizationAgent =
  model_available :: bool
  summarizer :: "(string \<Rightarrow> string option) option"
  sent_tokenize :: "string \<Rightarrow> string list option"
  re_findall :: "string \<Rightarrow> string \<Rightarrow> string list"
  sentence_score :: "string list \<Rightarrow> nat \<Rightarrow> rat"

definition max_chunk_length :: nat where
  \<comment> \<open>\<open>settings.max_chunk_length\<close>\<close>
  "max_chunk_length = 1024"

fun collapse_from :: "bool \<Rightarrow> string \<Rightarrow> string" where
  "collapse_from in_run [] = []"
| "collapse_from in_run (c # cs) =
     (if is_space c then (if in_run then collapse_from True cs else CHR '' '' # collapse_from True cs)
      else c # collapse_from False cs)"

definition collapse_whitespace :: "string \<Rightarrow> string" where
  \<comment> \<open>\<open>re.sub(r'\s+', ' ', text)\<close>: every run of whitespace becomes one space\<close>
  "collapse_whitespace s = collapse_from False s"

definition kept_char :: "char \<Rightarrow> bool" where
  \<comment> \<open>the characters \<open>re.sub(r'[^\w\s.,;:!?\'-]', '', text)\<close> leaves in place\<close>
  "kept_char c = (is_word_char c \<or> is_space c \<or> c \<in> set ''.,;:!?'' \<or> c = CHR 0x27 \<or> c = CHR ''-'')"

definition only_chars :: "(char \<Rightarrow> bool) \<Rightarrow> string \<Rightarrow> bool" where
  \<comment> \<open>\<open>re.match(r'^[...]+$', s)\<close> on a stripped string: non-empty and every character in the class\<close>
  "only_chars cls s = (s \<noteq> [] \<and> list_all cls s)"

definition startswith_any :: "string \<Rightarrow> string list \<Rightarrow> bool" where
  \<comment> \<open>\<open>s.startswith((p1, p2, ...))\<close>\<close>
  "startswith_any s ps = list_ex (startswith s) ps"

definition meaningful_line :: "string \<Rightarrow> bool" where
  "meaningful_line line =
     (length line > 50 \<and> \<not> isupper line \<and>
      \<not> startswith_any line [''http'', ''doi:'', ''DOI:'', ''References'', ''Bibliography''] \<and>
      \<not> only_chars (\<lambda>c. is_digit c \<or> c = CHR ''.'' \<or> is_space c) line)"

fun meaningful_lines_loop :: "string list \<Rightarrow> string list \<Rightarrow> string list" where
  \<comment> \<open>the \<open>for line in lines\<close> loop, leaving at the \<open>break\<close>\<close>
  "meaningful_lines_loop [] acc = acc"
| "meaningful_lines_loop (l # ls) acc =
     (let line = strip l;
          acc' = (if meaningful_line line then acc @ [line] else acc)
      in if length (join '' '' acc') > 1500 then acc' else meaningful_lines_loop ls acc')"

definition prepare_text_for_summarization :: "ResearchPaper \<Rightarrow> string" where
  "prepare_text_for_summarization paper =
     (let base_text =
            (if p_abstract paper \<noteq> [] \<and> length (strip (p_abstract paper)) > 100
             then strip (p_abstract paper)
             else if p_content paper \<noteq> []
             then (let meaningful_lines =
                         meaningful_lines_loop (split_on (CHR 0x0A) (p_content paper)) []
                   in if meaningful_lines \<noteq> [] then join '' '' (take 5 meaningful_lines)
                      else take 1000 (p_content paper))
             else []);
          text = (if p_title paper \<noteq> [] then p_title paper @ ''. '' @ base_text else base_text);
          text = collapse_whitespace text;
          text = filter kept_char text
      in strip text)"

fun chunk_loop :: "nat \<Rightarrow> string list \<Rightarrow> string list \<Rightarrow> string list \<Rightarrow> nat \<Rightarrow> string list" where
  "chunk_loop max_length [] chunks current_chunk current_length =
     (if current_chunk \<noteq> [] then chunks @ [join '' '' current_chunk] else chunks)"
| "chunk_loop max_length (word # ws) chunks current_chunk current_length =
     (if current_length + length word + 1 > max_length \<and> current_chunk \<noteq> []
      then chunk_loop max_length ws (chunks @ [join '' '' current_chunk]) [word] (length word)
      else chunk_loop max_length ws chunks (current_chunk @ [word]) (current_length + length word + 1))"

definition chunk_text :: "string \<Rightarrow> nat \<Rightarrow> string list" where
  "chunk_text text max_length = chunk_loop max_length (split_ws text) [] [] 0"

function re_split_sentences :: "string \<Rightarrow> string list" where
  \<comment> \<open>\<open>re.split(r'(?<=[.!?])\s+(?=[A-Z])', text)\<close>: a piece ends after \<open>.\<close>, \<open>!\<close> or
      \<open>?\<close> when whitespace and then a capital letter follow, and the whitespace is dropped\<close>
  "re_split_sentences [] = [[]]"
| "re_split_sentences (c # cs) =
     (if c \<in> set ''.!?'' \<and> takeWhile is_space cs \<noteq> [] \<and>
         (case dropWhile is_space cs of [] \<Rightarrow> False | d # ds \<Rightarrow> is_upper_char d)
      then [c] # re_split_sentences (dropWhile is_space cs)
      else (case re_split_sentences cs of
              [] \<Rightarrow> [[c]]
            | piece # pieces \<Rightarrow> (c # piece) # pieces))"
  by pat_completeness auto
termination
  by (relation "measure length") (auto simp: length_dropWhile_le less_Suc_eq_le)

definition keep_sentence :: "string \<Rightarrow> bool" where
  "keep_sentence s =
     (length s > 20 \<and> \<not> isupper s \<and>
      \<not> only_chars (\<lambda>c. is_digit c \<or> is_space c \<or> c = CHR ''.'' \<or> c = CHR ''-'') s \<and>
      length (split_ws s) > 3)"

definition tokenize_sentences :: "SummarizationAgent \<Rightarrow> string \<Rightarrow> string list" where
  "tokenize_sentences ag text =
     (let sentences = (case sent_tokenize ag text of
                         Some ss \<Rightarrow> ss
                       | None \<Rightarrow> re_split_sentences text)
      in filter keep_sentence (map strip sentences))"

definition score_sentences :: "SummarizationAgent \<Rightarrow> string list \<Rightarrow> (string \<times> rat \<times> nat) list" where
  \<comment> \<open>one triple (sentence, score, index) per sentence, in order\<close>
  "score_sentences ag sentences =
     map (\<lambda>(idx, sentence). (sentence, sentence_score ag sentences idx, idx))
         (zip [0 ..< length sentences] sentences)"

definition shorten_for_ui :: "string \<Rightarrow> string" where
  \<comment> \<open>the block under \<open>max_length = 150\<close>, written out three times in the source
      (abstractive, extractive with more than two sentences, fallback)\<close>
  "shorten_for_ui summary =
     (let max_length = (150::nat) in
      if length summary > max_length
      then (let truncated = take max_length summary;
                last_period = rfind truncated (CHR ''.'');
                last_space = rfind truncated (CHR '' '')
            in if last_period > int max_length - 50 then take (nat (last_period + 1)) truncated
               else if last_space > int max_length - 20 then take (nat last_space) truncated @ ''...''
               else truncated @ ''...'')
      else summary)"

definition insight_patterns :: "string list" where
  "insight_patterns =
     [''(?:we|the study|research|results?) (?:found|shows?|demonstrates?|reveals?|indicates?) (?:that )?([^.]+)'',
      ''(?:the|our) (?:findings|results|conclusion) (?:suggest|indicate|show) (?:that )?([^.]+)'']"

definition extract_key_insights :: "SummarizationAgent \<Rightarrow> ResearchPaper \<Rightarrow> string \<Rightarrow> string list" where
  "extract_key_insights ag paper summary =
     (let text_to_analyze = summary @ '' '' @ p_abstract paper;
          insights = concat (map (\<lambda>pattern.
                        filter (\<lambda>insight. 20 < length insight \<and> length insight < 200)
                               (map strip (re_findall ag pattern text_to_analyze)))
                      insight_patterns)
      in take 3 insights)"

definition fallback_content_line :: "string \<Rightarrow> bool" where
  "fallback_content_line line =
     (length line > 30 \<and> \<not> isupper line \<and>
      \<not> startswith_any line [''http'', ''doi:'', ''DOI:''] \<and>
      \<not> only_chars (\<lambda>c. is_digit c \<or> c = CHR ''.'' \<or> is_space c \<or> c = CHR ''-'') line)"

fun fallback_content_loop :: "string list \<Rightarrow> string list \<Rightarrow> string list" where
  \<comment> \<open>the \<open>for line in lines[:10]\<close> loop, leaving at the \<open>break\<close>\<close>
  "fallback_content_loop [] acc = acc"
| "fallback_content_loop (l # ls) acc =
     (let line = strip l
      in if fallback_content_line line
         then (let acc' = acc @ [line]
               in if length (join '' '' acc') > 200 then acc' else fallback_content_loop ls acc')
         else fallback_content_loop ls acc)"

definition generate_fallback_summary :: "ResearchPaper \<Rightarrow> summary" where
  "generate_fallback_summary paper =
     (let title_part =
            (if p_title paper \<noteq> []
             then ''This research paper titled '' @ [CHR 0x27] @ p_title paper @ [CHR 0x27]
             else ''This research paper'');
          topic_part =
            (if p_topics paper \<noteq> []
             then [''focuses on '' @ join '', '' (take 3 (p_topics paper))]
             else []);
          body_part =
            (if p_abstract paper \<noteq> [] \<and> length (strip (p_abstract paper)) > 50
             then (let clean_abstract = collapse_whitespace (strip (p_abstract paper))
                   in ''Abstract: '' @
                      (if length clean_abstract > 300 then take 300 clean_abstract @ ''...''
                       else clean_abstract))
             else if p_content paper \<noteq> []
             then (let meaningful_content =
                         fallback_content_loop (take 10 (split_on (CHR 0x0A) (p_content paper))) []
                   in if meaningful_content \<noteq> []
                      then (let content_summary = join '' '' meaningful_content
                            in if length content_summary > 250 then take 250 content_summary @ ''...''
                               else content_summary)
                      else ''presents research findings and analysis'')
             else ''presents research findings and analysis'');
          summary = join ''. '' ([title_part] @ topic_part @ [body_part]);
          summary = (if \<not> endswith summary ''.'' then summary @ ''.'' else summary);
          summary = shorten_for_ui summary
      in \<lparr> s_summary = summary, s_paper_id = p_id paper, s_length = length summary,
           s_method = ''fallback'', s_key_insights = [], s_topics = p_topics paper,
           s_title = p_title paper \<rparr>)"

definition num_sentences :: "nat \<Rightarrow> nat" where
  "num_sentences total_sentences =
     (if total_sentences \<le> 5 then min 2 total_sentences
      else if total_sentences \<le> 10 then 3
      else max 3 (min 5 (total_sentences div 4)))"

definition generate_extractive_summary :: "SummarizationAgent \<Rightarrow> ResearchPaper \<Rightarrow> summary" where
  "generate_extractive_summary ag paper =
     (let text_to_summarize = prepare_text_for_summarization paper
      in if length (strip text_to_summarize) < 100 then generate_fallback_summary paper
         else (let sentences = tokenize_sentences ag text_to_summarize
               in if length sentences = 0 then generate_fallback_summary paper
                  else (let summary =
                              (if length sentences \<le> 2 then join '' '' sentences
                               else (let scored_sentences = score_sentences ag sentences;
                                         top_sentences =
                                           take (num_sentences (length sentences))
                                             (sort_key (\<lambda>(sent, score, idx). - score) scored_sentences);
                                         top_sentences = sort_key (\<lambda>(sent, score, idx). idx) top_sentences;
                                         summary = join '' '' (map fst top_sentences)
                                     in shorten_for_ui summary));
                            key_insights = extract_key_insights ag paper summary
                        in \<lparr> s_summary = summary, s_paper_id = p_id paper,
                             s_length = length summary, s_method = ''extractive'',
                             s_key_insights = key_insights, s_topics = p_topics paper,
                             s_title = p_title paper \<rparr>)))"

definition generate_abstractive_summary ::
    "SummarizationAgent \<Rightarrow> (string \<Rightarrow> string option) \<Rightarrow> ResearchPaper \<Rightarrow> summary" where
  "generate_abstractive_summary ag model paper =
     (let text_to_summarize = prepare_text_for_summarization paper;
          chunks = chunk_text text_to_summarize max_chunk_length;
          summaries = List.map_filter model chunks;
          final_summary = (if summaries \<noteq> [] then join '' '' summaries
                           else take 300 (p_abstract paper));
          final_summary = shorten_for_ui final_summary;
          key_insights = extract_key_insights ag paper final_summary
      in \<lparr> s_summary = final_summary, s_paper_id = p_id paper,
           s_length = length final_summary, s_method = ''abstractive'',
           s_key_insights = key_insights, s_topics = p_topics paper,
           s_title = p_title paper \<rparr>)"

text \<open>
  \<open>SummarizationAgent.process\<close>. Its \<open>except Exception\<close> branch calls the fallback; in the
  model the outside calls that can raise (the transformer, NLTK) are absorbed where the source
  absorbs them, inside the two generators, so no exception reaches that branch.
\<close>

definition summarization_process :: "SummarizationAgent \<Rightarrow> ResearchPaper \<Rightarrow> summary" where
  "summarization_process ag paper =
     (case (model_available ag, summarizer ag) of
        (True, Some model) \<Rightarrow> generate_abstractive_summary ag model paper
      | _ \<Rightarrow> generate_extractive_summary ag paper)"

section \<open>Classifier (\<open>agents/classification_agent.py\<close>)\<close>

definition topic_definitions :: "(string \<times> string list) list" where
  "topic_definitions =
     [(''Artificial Intelligence'',
         [''artificial intelligence'', ''AI'', ''machine intelligence'', ''cognitive computing'',
          ''intelligent systems'', ''AI algorithms'', ''artificial neural networks'']),
      (''Machine Learning'',
         [''machine learning'', ''ML'', ''deep learning'', ''neural networks'', ''supervised learning'',
          ''unsupervised learning'', ''reinforcement learning'', ''gradient descent'', ''backpropagation'',
          ''random forest'', ''support vector machine'', ''clustering'', ''classification algorithms'']),
      (''Natural Language Processing'',
         [''natural language processing'', ''NLP'', ''text mining'', ''language models'',
          ''text classification'', ''sentiment analysis'', ''named entity recognition'',
          ''machine translation'', ''text generation'', ''language understanding'']),
      (''Computer Vision'',
         [''computer vision'', ''image processing'', ''image recognition'', ''object detection'',
          ''image classification'', ''convolutional neural networks'', ''CNN'', ''visual recognition'',
          ''image segmentation'', ''face recognition'']),
      (''Data Science'',
         [''data science'', ''data analysis'', ''data mining'', ''big data'', ''analytics'',
          ''statistical analysis'', ''data visualization'', ''predictive modeling'',
          ''business intelligence'', ''data engineering'']),
      (''Robotics'',
         [''robotics'', ''autonomous systems'', ''robot control'', ''robot navigation'',
          ''robotic systems'', ''automation'', ''mechatronics'', ''robot learning'']),
      (''Cybersecurity'',
         [''cybersecurity'', ''information security'', ''network security'', ''encryption'',
          ''malware detection'', ''intrusion detection'', ''security protocols'', ''cyber threats'']),
      (''Blockchain'',
         [''blockchain'', ''cryptocurrency'', ''distributed ledger'', ''smart contracts'',
          ''bitcoin'', ''ethereum'', ''decentralized systems'', ''consensus algorithms'']),
      (''Quantum Computing'',
         [''quantum computing'', ''quantum algorithms'', ''quantum mechanics'', ''qubits'',
          ''quantum entanglement'', ''quantum cryptography'', ''quantum simulation'']),
      (''Software Engineering'',
         [''software engineering'', ''software development'', ''programming'', ''software architecture'',
          ''code quality'', ''software testing'', ''agile development'', ''DevOps'']),
      (''Human-Computer Interaction'',
         [''human-computer interaction'', ''HCI'', ''user interface'', ''user experience'',
          ''usability'', ''interface design'', ''interaction design'', ''UX research'']),
      (''Bioinformatics'',
         [''bioinformatics'', ''computational biology'', ''genomics'', ''proteomics'',
          ''biological data analysis'', ''sequence analysis'', ''molecular biology''])]"

definition fallback_classification :: "ResearchPaper \<Rightarrow> string list" where
  "fallback_classification paper =
     (let text = lower (p_title paper @ '' '' @ p_abstract paper);
          topic_matches =
            filter (\<lambda>(topic, matches). matches > 0)
              (map (\<lambda>(topic, keywords).
                      (topic, length (filter (\<lambda>keyword. contains text (lower keyword)) keywords)))
                   topic_definitions)
      in if topic_matches \<noteq> []
         then map fst (take 2 (sort_key (\<lambda>(topic, matches). - int matches) topic_matches))
         else [''Computer Science'', ''Research''])"

text \<open>
  \<open>ClassificationAgent.process\<close>: the constructor leaves \<open>model_available\<close> false on both of
  its paths, so every call is the keyword classification.
\<close>

definition classification_process :: "ResearchPaper \<Rightarrow> string list" where
  "classification_process paper = fallback_classification paper"

section \<open>Extractor (\<open>agents/extraction_agent.py\<close>)\<close>

record metadata =
  md_title :: string
  md_authors :: "string list"
  md_abstract :: string
  md_doi :: string

text \<open>
  The file system and the libraries are fields of the agent: \<open>fitz_open\<close> gives the text of
  the pages of a PDF and \<open>read_text_file\<close> the content of a text file, each \<open>None\<close> when the
  call raises (a corrupt, missing or unreadable file); \<open>uuid4\<close> is the identifier drawn for the
  paper of a file; \<open>extract_metadata_from_text\<close> stands for the title, author, abstract and DOI
  heuristics, which do not fail.
\<close>

record ExtractionAgent =
  pdf_available :: bool
  fitz_open :: "string \<Rightarrow> string list option"
  read_text_file :: "string \<Rightarrow> string option"
  extract_metadata_from_text :: "string \<Rightarrow> metadata"
  uuid4 :: "string \<Rightarrow> string"

record upload_request =
  file_paths :: "string list"
  topics :: "string list"

definition basename :: "string \<Rightarrow> string" where
  \<comment> \<open>\<open>os.path.basename\<close>: what follows the last slash\<close>
  "basename path = rev (takeWhile (\<lambda>c. c \<noteq> CHR ''/'') (rev path))"

definition create_fallback_paper :: "ExtractionAgent \<Rightarrow> string \<Rightarrow> string list \<Rightarrow> ResearchPaper" where
  "create_fallback_paper ag file_path tps =
     \<lparr> p_id = uuid4 ag file_path,
       p_title = ''Document: '' @ basename file_path,
       p_authors = [''Unknown Author''],
       p_abstract = ''Content extraction failed or unsupported file format'',
       p_content = ''Content extraction failed'',
       p_doi = [], p_url = [], p_topics = tps \<rparr>"

definition paper_of_text :: "ExtractionAgent \<Rightarrow> string \<Rightarrow> string list \<Rightarrow> string \<Rightarrow> ResearchPaper" where
  \<comment> \<open>the \<open>ResearchPaper(...)\<close> both extraction functions build from the text they read\<close>
  "paper_of_text ag file_path tps full_text =
     (let md = extract_metadata_from_text ag full_text
      in \<lparr> p_id = uuid4 ag file_path, p_title = md_title md, p_authors = md_authors md,
           p_abstract = md_abstract md, p_content = full_text, p_doi = md_doi md,
           p_url = [], p_topics = tps \<rparr>)"

definition extract_from_pdf :: "ExtractionAgent \<Rightarrow> string \<Rightarrow> string list \<Rightarrow> ResearchPaper option" where
  \<comment> \<open>\<open>try: ... return paper; except Exception: return None\<close>; each page's text is followed
      by a backslash and the letter n, as the source writes it\<close>
  "extract_from_pdf ag file_path tps =
     (case fitz_open ag file_path of
        None \<Rightarrow> None
      | Some pages \<Rightarrow>
          Some (paper_of_text ag file_path tps (concat (map (\<lambda>text. text @ [CHR 0x5C, CHR ''n'']) pages))))"

definition extract_from_text_file :: "ExtractionAgent \<Rightarrow> string \<Rightarrow> string list \<Rightarrow> ResearchPaper option" where
  "extract_from_text_file ag file_path tps =
     (case read_text_file ag file_path of
        None \<Rightarrow> None
      | Some full_text \<Rightarrow> Some (paper_of_text ag file_path tps full_text))"

text \<open>
  \<open>ExtractionAgent.process\<close>. The body of the loop's \<open>try\<close> cannot raise here, since both
  extraction functions absorb their own exceptions and return \<open>None\<close>; a \<open>None\<close> fails the test
  \<open>if paper:\<close> and nothing is appended for that file.
\<close>

fun extraction_loop :: "ExtractionAgent \<Rightarrow> string list \<Rightarrow> string list \<Rightarrow> ResearchPaper list" where
  "extraction_loop ag tps [] = []"
| "extraction_loop ag tps (file_path # rest) =
     (let paper =
            (if pdf_available ag \<and> endswith (lower file_path) ''.pdf''
             then extract_from_pdf ag file_path tps
             else if endswith (lower file_path) ''.txt''
             then extract_from_text_file ag file_path tps
             else Some (create_fallback_paper ag file_path tps))
      in (case paper of Some p \<Rightarrow> [p] | None \<Rightarrow> []) @ extraction_loop ag tps rest)"

definition extraction_process :: "ExtractionAgent \<Rightarrow> upload_request \<Rightarrow> ResearchPaper list" where
  "extraction_process ag paper_input = extraction_loop ag (topics paper_input) (file_paths paper_input)"

section \<open>Synthesizer (\<open>agents/synthesis_agent.py\<close>)\<close>

text \<open>
  A Python dict keeps its keys in the order of their first insertion, and \<open>Counter\<close> is a
  dict: both are association lists here, with one entry per key.
\<close>

fun increment :: "string \<Rightarrow> (string \<times> nat) list \<Rightarrow> (string \<times> nat) list" where
  \<comment> \<open>\<open>d[key] = d.get(key, 0) + 1\<close>\<close>
  "increment key [] = [(key, 1)]"
| "increment key ((k, n) # rest) =
     (if k = key then (k, n + 1) # rest else (k, n) # increment key rest)"

definition Counter :: "string list \<Rightarrow> (string \<times> nat) list" where
  "Counter xs = foldl (\<lambda>d key. increment key d) [] xs"

definition lookup :: "(string \<times> nat) list \<Rightarrow> string \<Rightarrow> nat" where
  \<comment> \<open>\<open>d.get(key, 0)\<close>\<close>
  "lookup d key = (case map_of d key of None \<Rightarrow> 0 | Some n \<Rightarrow> n)"

fun pair_keys :: "string list \<Rightarrow> string list" where
  \<comment> \<open>the keys \<open>f"{topic1}_{topic2}"\<close> of the two nested loops over one classification,
      \<open>topic2\<close> ranging over \<open>classification[i+1:]\<close>\<close>
  "pair_keys [] = []"
| "pair_keys (topic1 # rest) = map (\<lambda>topic2. topic1 @ ''_'' @ topic2) rest @ pair_keys rest"

record topic_analysis =
  topic_distribution :: "(string \<times> nat) list"
  total_unique_topics :: nat
  most_common_topics :: "(string \<times> nat) list"
  topic_cooccurrence :: "(string \<times> nat) list"

definition analyze_topics :: "ResearchPaper list \<Rightarrow> string list list \<Rightarrow> topic_analysis" where
  "analyze_topics papers classifications =
     (let all_topics = concat classifications;
          topic_counts = Counter all_topics;
          topic_cooccurrence =
            foldl (\<lambda>d classification.
                     if length classification > 1
                     then foldl (\<lambda>d pair_key. increment pair_key d) d (pair_keys classification)
                     else d)
                  [] classifications
      in \<lparr> topic_distribution = topic_counts,
           total_unique_topics = length topic_counts,
           most_common_topics = take 5 (sort_key (\<lambda>(topic, n). - int n) topic_counts),
           topic_cooccurrence = topic_cooccurrence \<rparr>)"

text \<open>
  The dict a Synthesizer call returns; the degenerate payloads of the pipeline leave
  \<open>topic_analysis\<close> and \<open>methodology\<close> out.
\<close>

record synthesis_result =
  syn_synthesis :: string
  syn_topic_analysis :: "topic_analysis option"
  syn_paper_count :: nat
  syn_methodology :: "string option"

record synthesis_input =
  in_papers :: "ResearchPaper list"
  in_classifications :: "string list list"
  in_summaries :: "summary list"

text \<open>
  \<open>SynthesisAgent.process\<close>; \<open>generate_synthesis\<close> stands for the narrative text
  \<open>_generate_synthesis\<close> composes. On no papers the source gives an empty dict as topic
  analysis, which is \<open>None\<close> here.
\<close>

definition synthesis_process ::
    "(ResearchPaper list \<Rightarrow> summary list \<Rightarrow> topic_analysis \<Rightarrow> string) \<Rightarrow> synthesis_input \<Rightarrow> synthesis_result" where
  "synthesis_process generate_synthesis classified_papers =
     (if in_papers classified_papers = []
      then \<lparr> syn_synthesis = ''No papers available for synthesis.'', syn_topic_analysis = None,
             syn_paper_count = 0, syn_methodology = None \<rparr>
      else (let ta = analyze_topics (in_papers classified_papers) (in_classifications classified_papers);
                synthesis_text = generate_synthesis (in_papers classified_papers)
                                   (in_summaries classified_papers) ta
            in \<lparr> syn_synthesis = synthesis_text, syn_topic_analysis = Some ta,
                 syn_paper_count = length (in_papers classified_papers),
                 syn_methodology = Some ''enhanced_synthesis'' \<rparr>))"

section \<open>Narrator (\<open>agents/audio_agent.py\<close>)\<close>

text \<open>
  What the agent takes from outside: \<open>render\<close> is a text-to-speech call writing a file (gTTS
  or pyttsx3 by \<open>tts_method\<close>), true when it succeeds and false when it raises;
  \<open>write_placeholder\<close> is \<open>open(filename, "w")\<close> with the write, giving the message of the
  exception when it raises; \<open>audio_uuid\<close> is the identifier drawn for the call.
\<close>

record AudioAgent =
  tts_available :: bool
  tts_method :: string
  render :: "string \<Rightarrow> string \<Rightarrow> bool"
  write_placeholder :: "string \<Rightarrow> string \<Rightarrow> string option"
  audio_uuid :: string

fun replace_all :: "string \<Rightarrow> string \<Rightarrow> string \<Rightarrow> string" where
  \<comment> \<open>\<open>s.replace(old, new)\<close> for a non-empty \<open>old\<close>, written \<open>replace_all old new s\<close>\<close>
  "replace_all old new [] = []"
| "replace_all old new (c # cs) =
     (if old \<noteq> [] \<and> startswith (c # cs) old
      then new @ replace_all old new (drop (length old - 1) cs)
      else c # replace_all old new cs)"

function chunks_of :: "nat \<Rightarrow> string list \<Rightarrow> string list" where
  \<comment> \<open>\<open>[' '.join(words[i:i+chunk_size]) for i in range(0, len(words), chunk_size)]\<close>\<close>
  "chunks_of chunk_size ws =
     (if ws = [] \<or> chunk_size = 0 then []
      else join '' '' (take chunk_size ws) # chunks_of chunk_size (drop chunk_size ws))"
  by pat_completeness auto
termination
  by (relation "measure (\<lambda>(chunk_size, ws). length ws)") auto

declare chunks_of.simps [simp del]

definition generate_chunked_gtts_audio :: "AudioAgent \<Rightarrow> string \<Rightarrow> string \<Rightarrow> string list" where
  "generate_chunked_gtts_audio ag text base_filename =
     (let ws = split_ws text;
          chunks = chunks_of 100 ws;
          named = map (\<lambda>(i, chunk).
                     (replace_all ''.mp3'' (''_part'' @ str_of_nat (i + 1) @ ''.mp3'') base_filename, chunk))
                   (zip [0 ..< length chunks] chunks)
      in if list_all (\<lambda>(chunk_filename, chunk). render ag chunk chunk_filename) named
         then map fst named else [])"

definition generate_gtts_audio :: "AudioAgent \<Rightarrow> string \<Rightarrow> string \<Rightarrow> string list" where
  "generate_gtts_audio ag text filename =
     (if length text > 5000 then generate_chunked_gtts_audio ag text filename
      else if render ag text filename then [filename] else [])"

definition generate_pyttsx3_audio :: "AudioAgent \<Rightarrow> string \<Rightarrow> string \<Rightarrow> string list" where
  "generate_pyttsx3_audio ag text filename = (if render ag text filename then [filename] else [])"

text \<open>
  \<open>AudioAgent.process\<close>; \<open>Inl\<close> is an exception leaving the call. Inside the \<open>try\<close> nothing
  raises, since the three rendering functions absorb their exceptions and return the empty
  list, so the placeholder of the \<open>except\<close> branch is never written.
\<close>

definition audio_process :: "AudioAgent \<Rightarrow> synthesis_result \<Rightarrow> string + string list" where
  "audio_process ag synthesis =
     (if \<not> tts_available ag
      then (let filename = ''audio/synthesis_'' @ audio_uuid ag @ ''.txt''
            in case write_placeholder ag filename
                      ''Audio generation not available - TTS library not installed'' of
                 Some e \<Rightarrow> Inl e
               | None \<Rightarrow> Inr [filename])
      else (let synthesis_text = syn_synthesis synthesis
            in if synthesis_text \<noteq> []
               then (let filename = ''audio/synthesis_'' @ audio_uuid ag @ ''.mp3''
                     in if tts_method ag = ''gtts''
                        then Inr (generate_gtts_audio ag synthesis_text filename)
                        else if tts_method ag = ''pyttsx3''
                        then Inr (generate_pyttsx3_audio ag synthesis_text filename)
                        else Inr [])
               else Inr []))"

section \<open>Workflow registry (\<open>WorkflowManager\<close> in \<open>services/orchestrator.py\<close>)\<close>

record paper_dict =
  pd_id :: string
  pd_title :: string
  pd_authors :: "string list"
  pd_abstract :: string
  pd_content :: string
  pd_doi :: string
  pd_url :: string
  pd_topics :: "string list"

text \<open>
  The \<open>results\<close> entry of a workflow is one of two dicts: the payload of a finished run
  (without \<open>workflow_id\<close> when no paper was found) or the error payload
  \<open>{workflow_id, error, status}\<close>.
\<close>

record pipeline_result =
  res_workflow_id :: "string option"
  res_papers :: "paper_dict list"
  res_papers_processed :: nat
  res_summaries :: "summary list"
  res_classifications :: "string list list"
  res_synthesis :: synthesis_result
  res_audio_files :: "string list"
  res_status :: string

datatype results = Pipeline_result pipeline_result | Error_result string string string

text \<open>
  A workflow dict. Every progress value the source writes is a whole number (as a float or
  an int), so progress is a natural number here.
\<close>

record workflow =
  wf_id :: string
  wf_status :: string
  wf_progress :: nat
  wf_message :: string
  wf_created_at :: string
  wf_results :: "results option"

text \<open>The keyword arguments of \<open>update_workflow\<close>: \<open>None\<close> is a keyword left out.\<close>

record kwargs =
  kw_status :: "string option"
  kw_progress :: "nat option"
  kw_message :: "string option"
  kw_results :: "results option"

type_synonym registry = "string \<rightharpoonup> workflow"

definition create_workflow :: "string \<Rightarrow> string \<Rightarrow> string \<Rightarrow> registry \<Rightarrow> registry" where
  \<comment> \<open>the first argument is \<open>datetime.now().isoformat()\<close>\<close>
  "create_workflow now workflow_id status workflows =
     workflows(workflow_id \<mapsto>
       \<lparr> wf_id = workflow_id, wf_status = status, wf_progress = 0,
         wf_message = ''Workflow created'', wf_created_at = now, wf_results = None \<rparr>)"

definition dict_update :: "kwargs \<Rightarrow> workflow \<Rightarrow> workflow" where
  \<comment> \<open>\<open>self.workflows[workflow_id].update(kwargs)\<close>\<close>
  "dict_update kw w =
     w\<lparr> wf_status := (case kw_status kw of None \<Rightarrow> wf_status w | Some v \<Rightarrow> v),
        wf_progress := (case kw_progress kw of None \<Rightarrow> wf_progress w | Some v \<Rightarrow> v),
        wf_message := (case kw_message kw of None \<Rightarrow> wf_message w | Some v \<Rightarrow> v),
        wf_results := (case kw_results kw of None \<Rightarrow> wf_results w | Some v \<Rightarrow> Some v) \<rparr>"

text \<open>
  \<open>update_workflow\<close> merges the keywords into the record when the id is known and does
  nothing otherwise. The mirror into the database (under \<open>DATABASE_AVAILABLE\<close>) swallows its
  own errors and never touches the in-memory record; it is left out.
\<close>

definition update_workflow :: "string \<Rightarrow> kwargs \<Rightarrow> registry \<Rightarrow> registry" where
  "update_workflow workflow_id kw workflows =
     (case workflows workflow_id of
        None \<Rightarrow> workflows
      | Some w \<Rightarrow> workflows(workflow_id \<mapsto> dict_update kw w))"


section \<open>Pipeline (\<open>AgentOrchestrator\<close> and \<open>api/routes.py\<close>)\<close>

record search_request =
  search_query :: "string option"
  query :: "string option"

text \<open>
  What a statement of the pipeline can raise, by the class that decides whether
  \<open>except Exception\<close> catches it: \<open>Exception e\<close> is an instance of \<open>Exception\<close> whose
  \<open>str\<close> is \<open>e\<close>; \<open>BaseException b\<close> is an instance of \<open>BaseException\<close> that is not an
  \<open>Exception\<close>, such as the \<open>asyncio.CancelledError\<close> that an \<open>await\<close> raises in a task
  that is cancelled.
\<close>

datatype exn = Exception string | BaseException string

text \<open>
  What a job reaches outside itself. The six agents of the orchestrator, as the pipeline
  sees them: the \<open>await\<close> of a call returns a value or raises. The standard output:
  \<open>stdout text\<close> is \<open>None\<close> when \<open>print\<close> writes the text and \<open>Some e\<close> when it raises a
  \<open>UnicodeEncodeError\<close> whose \<open>str\<close> is \<open>e\<close>, as it does on a text with a lone surrogate.
  And \<open>traceback.format_exc\<close>, the text it returns for the exception being handled.

  The standard output is taken to be open and to encode every character but a lone surrogate
  (UTF-8). So a printed line made of fixed text, a workflow id (a \<open>uuid4\<close> string), counts
  and the \<open>repr\<close> of a list (which escapes a surrogate) is always written and has no step
  here; a line that carries a text from outside (the query of a search, the text of an
  exception) goes through \<open>stdout\<close>. The pictograph at the head of each printed line is
  left out. An \<open>asyncio.sleep\<close> has no step either: a cancellation is taken at the
  \<open>await\<close> of an agent call.
\<close>

record agents =
  discovery :: "search_request \<Rightarrow> exn + ResearchPaper list"
  extraction :: "upload_request \<Rightarrow> exn + ResearchPaper list"
  classification :: "ResearchPaper \<Rightarrow> exn + string list"
  summarization :: "ResearchPaper \<Rightarrow> exn + summary"
  synthesis :: "synthesis_input \<Rightarrow> exn + synthesis_result"
  audio :: "synthesis_result \<Rightarrow> exn + string list"
  stdout :: "string \<Rightarrow> string option"
  format_exc :: "string \<Rightarrow> string"

datatype agent_name = Discovery | Extraction | Classification | Summarization | Synthesis | Audio

text \<open>
  The orchestrator holds the registry. The trace is a ghost field: it records, in order,
  every call of the registry and of an agent, so that what a run did can be stated.
\<close>

datatype event =
    Create_workflow string string
  | Update_workflow string kwargs
  | Agent_call agent_name

record orchestrator =
  workflows :: registry
  trace :: "event list"

definition wm_create :: "string \<Rightarrow> string \<Rightarrow> string \<Rightarrow> orchestrator \<Rightarrow> orchestrator" where
  "wm_create now workflow_id status s =
     s\<lparr> workflows := create_workflow now workflow_id status (workflows s),
        trace := trace s @ [Create_workflow workflow_id status] \<rparr>"

definition wm_update :: "string \<Rightarrow> kwargs \<Rightarrow> orchestrator \<Rightarrow> orchestrator" where
  "wm_update workflow_id kw s =
     s\<lparr> workflows := update_workflow workflow_id kw (workflows s),
        trace := trace s @ [Update_workflow workflow_id kw] \<rparr>"

definition call :: "agent_name \<Rightarrow> (exn + 'a) \<Rightarrow> orchestrator \<Rightarrow> (exn + 'a) \<times> orchestrator" where
  "call name r s = (r, s\<lparr> trace := trace s @ [Agent_call name] \<rparr>)"

definition bind ::
    "(exn + 'a) \<times> orchestrator \<Rightarrow> ('a \<Rightarrow> orchestrator \<Rightarrow> (exn + 'b) \<times> orchestrator)
      \<Rightarrow> (exn + 'b) \<times> orchestrator" where
  \<comment> \<open>sequencing: what is raised skips what follows\<close>
  "bind m f = (case m of (Inl e, s) \<Rightarrow> (Inl e, s) | (Inr x, s) \<Rightarrow> f x s)"

definition print_line :: "agents \<Rightarrow> string \<Rightarrow> orchestrator \<Rightarrow> (exn + unit) \<times> orchestrator" where
  \<comment> \<open>\<open>print(text)\<close> of a line that carries a text from outside\<close>
  "print_line ag text s =
     (case stdout ag text of None \<Rightarrow> (Inr (), s) | Some e \<Rightarrow> (Inl (Exception e), s))"

definition progress_message :: "nat \<Rightarrow> string \<Rightarrow> kwargs" where
  \<comment> \<open>\<open>update_workflow(id, progress=..., message=...)\<close>\<close>
  "progress_message p m =
     \<lparr> kw_status = None, kw_progress = Some p, kw_message = Some m, kw_results = None \<rparr>"

definition terminal_update :: "string \<Rightarrow> nat \<Rightarrow> string \<Rightarrow> results \<Rightarrow> kwargs" where
  \<comment> \<open>\<open>update_workflow(id, status=..., progress=..., message=..., results=...)\<close>\<close>
  "terminal_update st p m r =
     \<lparr> kw_status = Some st, kw_progress = Some p, kw_message = Some m, kw_results = Some r \<rparr>"

definition truncate_by_words :: "string \<Rightarrow> nat \<Rightarrow> string" where
  "truncate_by_words text max_words =
     (if text = [] then []
      else (let words = split_ws text
            in if length words > max_words then join '' '' (take max_words words) @ ''...''
               else text))"

definition paper_to_dict :: "ResearchPaper \<Rightarrow> paper_dict" where
  "paper_to_dict paper =
     \<lparr> pd_id = p_id paper, pd_title = p_title paper, pd_authors = p_authors paper,
       pd_abstract = truncate_by_words (p_abstract paper) 100,
       pd_content = (if length (p_content paper) > 150 then take 100 (p_content paper) @ ''...''
                     else p_content paper),
       pd_doi = p_doi paper, pd_url = p_url paper, pd_topics = p_topics paper \<rparr>"

definition audio_url :: "string \<Rightarrow> string" where
  \<comment> \<open>\<open>audio/file.mp3\<close> becomes \<open>/audio/file.mp3\<close>\<close>
  "audio_url audio_file =
     (if startswith audio_file ''audio/'' then ''/audio/'' @ drop 6 audio_file else audio_file)"

definition empty_result :: "string \<Rightarrow> results" where
  "empty_result narrative =
     Pipeline_result
       \<lparr> res_workflow_id = None, res_papers = [], res_papers_processed = 0, res_summaries = [],
         res_classifications = [],
         res_synthesis = \<lparr> syn_synthesis = narrative, syn_topic_analysis = None,
                           syn_paper_count = 0, syn_methodology = None \<rparr>,
         res_audio_files = [], res_status = ''completed'' \<rparr>"

text \<open>
  The per-paper loop of the two background jobs in \<open>routes.py\<close>. The source writes it twice;
  the copies differ in the first progress value (35 for a search, 30 for an upload) and in the
  noun of the message. The progress \<open>base + int((i / total_papers) * 35)\<close> is computed
  exactly. The Summarizer is called on the paper as it stands, and only then are the topics
  of the paper assigned.
\<close>

fun analysis_loop ::
    "agents \<Rightarrow> string \<Rightarrow> nat \<Rightarrow> string \<Rightarrow> nat \<Rightarrow> nat \<Rightarrow> ResearchPaper list \<Rightarrow> orchestrator
      \<Rightarrow> (exn + ResearchPaper list \<times> string list list \<times> summary list) \<times> orchestrator" where
  "analysis_loop ag wid base noun total_papers i [] s = (Inr ([], [], []), s)"
| "analysis_loop ag wid base noun total_papers i (paper # rest) s =
     (let paper_progress = base + (i * 35) div total_papers;
          s = wm_update wid
                (progress_message paper_progress
                   (''Analyzing '' @ noun @ '' '' @ str_of_nat (i + 1) @ ''/'' @
                    str_of_nat total_papers @ '': '' @ take 50 (p_title paper) @ ''...'')) s
      in bind (call Classification (classification ag paper) s) (\<lambda>cls s.
         bind (call Summarization (summarization ag paper) s) (\<lambda>summary s.
         bind (analysis_loop ag wid base noun total_papers (Suc i) rest s) (\<lambda>(papers, clss, summaries) s.
           (Inr (paper\<lparr> p_topics := cls \<rparr> # papers, cls # clss, summary # summaries), s)))))"

text \<open>
  The same loop in \<open>AgentOrchestrator._process_search_request_direct\<close>, which assigns the
  topics before it calls the Summarizer.
\<close>

fun direct_loop ::
    "agents \<Rightarrow> ResearchPaper list \<Rightarrow> orchestrator
      \<Rightarrow> (exn + ResearchPaper list \<times> string list list \<times> summary list) \<times> orchestrator" where
  "direct_loop ag [] s = (Inr ([], [], []), s)"
| "direct_loop ag (paper # rest) s =
     bind (call Classification (classification ag paper) s) (\<lambda>cls s.
     bind (call Summarization (summarization ag (paper\<lparr> p_topics := cls \<rparr>)) s) (\<lambda>summary s.
     bind (direct_loop ag rest s) (\<lambda>(papers, clss, summaries) s.
       (Inr (paper\<lparr> p_topics := cls \<rparr> # papers, cls # clss, summary # summaries), s))))"

definition finished_result ::
    "string option \<Rightarrow> ResearchPaper list \<Rightarrow> string list list \<Rightarrow> summary list \<Rightarrow> synthesis_result
      \<Rightarrow> string list \<Rightarrow> pipeline_result" where
  \<comment> \<open>the \<open>result\<close> dict of a run that went through every stage\<close>
  "finished_result wid papers clss summaries syn audio_files =
     \<lparr> res_workflow_id = wid, res_papers = map paper_to_dict papers,
       res_papers_processed = length papers, res_summaries = summaries,
       res_classifications = clss, res_synthesis = syn,
       res_audio_files = map audio_url audio_files, res_status = ''completed'' \<rparr>"

definition process_search_request_direct ::
    "agents \<Rightarrow> search_request \<Rightarrow> orchestrator \<Rightarrow> (exn + results) \<times> orchestrator" where
  \<comment> \<open>\<open>AgentOrchestrator._process_search_request_direct\<close>: no registry, and what an agent
      raises leaves the call\<close>
  "process_search_request_direct ag request s =
     bind (call Discovery (discovery ag request) s) (\<lambda>papers s.
       if papers = [] then (Inr (empty_result ''No papers found for the search query''), s)
       else
         bind (direct_loop ag papers s) (\<lambda>(papers, clss, summaries) s.
         bind (call Synthesis (synthesis ag \<lparr> in_papers = papers, in_classifications = clss,
                                               in_summaries = summaries \<rparr>) s) (\<lambda>syn s.
         bind (call Audio (audio ag syn) s) (\<lambda>audio_files s.
           (Inr (Pipeline_result (finished_result None papers clss summaries syn audio_files)), s)))))"

definition normalize_request :: "search_request \<Rightarrow> search_request" where
  \<comment> \<open>\<open>if 'query' in request and 'search_query' not in request: ...\<close>\<close>
  "normalize_request request =
     (if query request \<noteq> None \<and> search_query request = None
      then request\<lparr> search_query := query request \<rparr> else request)"

definition query_line :: "search_request \<Rightarrow> string" where
  \<comment> \<open>\<open>f"Query: {request.get('search_query')}"\<close>\<close>
  "query_line request =
     ''Query: '' @ (case search_query request of None \<Rightarrow> ''None'' | Some q \<Rightarrow> q)"

definition search_job_open :: "string \<Rightarrow> string \<Rightarrow> orchestrator \<Rightarrow> orchestrator" where
  \<comment> \<open>\<open>create_workflow(workflow_id, "processing")\<close> and the first update\<close>
  "search_job_open now wid s =
     wm_update wid (progress_message 20 ''Searching ArXiv database...'')
       (wm_create now wid ''processing'' s)"

definition search_job_start ::
    "agents \<Rightarrow> string \<Rightarrow> string \<Rightarrow> search_request \<Rightarrow> orchestrator \<Rightarrow> (exn + unit) \<times> orchestrator" where
  \<comment> \<open>the \<open>try\<close> block of \<open>_process_search_background\<close> up to its first \<open>await\<close>: the
      request is normalised and the query printed before the record is created\<close>
  "search_job_start ag now wid request s =
     (let request = normalize_request request
      in bind (print_line ag (query_line request) s) (\<lambda>u s.
           (Inr (), search_job_open now wid s)))"

definition search_job_rest ::
    "agents \<Rightarrow> string \<Rightarrow> search_request \<Rightarrow> orchestrator \<Rightarrow> (exn + unit) \<times> orchestrator" where
  \<comment> \<open>the \<open>try\<close> block from the call of the Source on, for the normalised request\<close>
  "search_job_rest ag wid request s =
     bind (call Discovery (discovery ag request) s) (\<lambda>papers s.
         let s = wm_update wid
                   (progress_message 30 (''Found '' @ str_of_nat (length papers) @ '' papers'')) s
         in if papers = []
            then (Inr (), wm_update wid
                     (terminal_update ''completed'' 100 ''No papers found''
                        (empty_result ''No papers found for the search query'')) s)
            else
              (let s = wm_update wid (progress_message 35 ''Starting paper analysis...'') s
               in bind (analysis_loop ag wid 35 ''paper'' (length papers) 0 papers s)
                    (\<lambda>(papers, clss, summaries) s.
                  let s = wm_update wid
                            (progress_message 75 ''Synthesizing findings across papers...'') s
                  in bind (call Synthesis (synthesis ag \<lparr> in_papers = papers, in_classifications = clss,
                                                           in_summaries = summaries \<rparr>) s) (\<lambda>syn s.
                     let s = wm_update wid (progress_message 85 ''Synthesis completed'') s;
                         s = wm_update wid (progress_message 90 ''Generating audio summary...'') s
                     in bind (call Audio (audio ag syn) s) (\<lambda>audio_files s.
                        let s = wm_update wid (progress_message 95 ''Audio generation completed'') s;
                            s = wm_update wid (progress_message 98 ''Finalizing results...'') s;
                            result = finished_result (Some wid) papers clss summaries syn audio_files
                        in (Inr (), wm_update wid
                              (terminal_update ''completed'' 100 ''Processing completed successfully!''
                                 (Pipeline_result result)) s))))))"

definition search_job_body ::
    "agents \<Rightarrow> string \<Rightarrow> string \<Rightarrow> search_request \<Rightarrow> orchestrator \<Rightarrow> (exn + unit) \<times> orchestrator" where
  \<comment> \<open>the \<open>try\<close> block of \<open>_process_search_background\<close>: the normalisation and the print of
      the query come first, so the block can raise before the record exists\<close>
  "search_job_body ag now wid request s =
     bind (search_job_start ag now wid request s) (\<lambda>u s.
       search_job_rest ag wid (normalize_request request) s)"

definition search_job_stages ::
    "agents \<Rightarrow> string \<Rightarrow> string \<Rightarrow> search_request \<Rightarrow> orchestrator \<Rightarrow> (exn + unit) \<times> orchestrator" where
  \<comment> \<open>the \<open>try\<close> block from \<open>create_workflow\<close> on: what runs once the query is printed\<close>
  "search_job_stages ag now wid request s = search_job_rest ag wid request (search_job_open now wid s)"

definition search_error_line :: "string \<Rightarrow> string \<Rightarrow> string" where
  \<comment> \<open>\<open>f"Error processing workflow {workflow_id}: {e}"\<close>\<close>
  "search_error_line wid e = ''Error processing workflow '' @ wid @ '': '' @ e"

definition upload_error_line :: "string \<Rightarrow> string \<Rightarrow> string" where
  \<comment> \<open>\<open>f"Error processing upload workflow {workflow_id}: {e}"\<close>\<close>
  "upload_error_line wid e = ''Error processing upload workflow '' @ wid @ '': '' @ e"

definition traceback_line :: "agents \<Rightarrow> string \<Rightarrow> string" where
  \<comment> \<open>\<open>f"Traceback: {traceback.format_exc()}"\<close>, in the handler of the exception \<open>e\<close>\<close>
  "traceback_line ag e = ''Traceback: '' @ format_exc ag e"

definition search_job_except ::
    "agents \<Rightarrow> string \<Rightarrow> string \<Rightarrow> orchestrator \<Rightarrow> (exn + unit) \<times> orchestrator" where
  \<comment> \<open>the body of \<open>except Exception as e\<close> in \<open>_process_search_background\<close>: two prints of
      the error, then the update; what a print raises leaves the handler\<close>
  "search_job_except ag wid e s =
     bind (print_line ag (search_error_line wid e) s) (\<lambda>u s.
     bind (print_line ag (traceback_line ag e) s) (\<lambda>u s.
       (Inr (), wm_update wid
          (terminal_update ''failed'' 0 (''Processing failed: '' @ e)
             (Error_result wid e ''failed'')) s)))"

definition process_search_background ::
    "agents \<Rightarrow> string \<Rightarrow> string \<Rightarrow> search_request \<Rightarrow> orchestrator \<Rightarrow> (exn + unit) \<times> orchestrator" where
  \<comment> \<open>\<open>_process_search_background\<close>: the \<open>try\<close> block under its \<open>except Exception\<close>, which
      lets a \<open>BaseException\<close> through; the result is \<open>Inl\<close> when something raised leaves
      the job\<close>
  "process_search_background ag now wid request s =
     (case search_job_body ag now wid request s of
        (Inr u, s') \<Rightarrow> (Inr (), s')
      | (Inl (Exception e), s') \<Rightarrow> search_job_except ag wid e s'
      | (Inl (BaseException b), s') \<Rightarrow> (Inl (BaseException b), s'))"

definition upload_job_body ::
    "agents \<Rightarrow> string \<Rightarrow> string \<Rightarrow> upload_request \<Rightarrow> orchestrator \<Rightarrow> (exn + unit) \<times> orchestrator" where
  \<comment> \<open>the \<open>try\<close> block of \<open>_process_upload_background\<close>; the prints that open it write the
      id and the \<open>repr\<close> of the two lists of the request\<close>
  "upload_job_body ag now wid request s =
     (let s = wm_create now wid ''processing'' s;
          s = wm_update wid (progress_message 10 ''Processing uploaded files...'') s
      in bind (call Extraction (extraction ag request) s) (\<lambda>papers s.
         let s = wm_update wid
                   (progress_message 25
                      (''Extracted content from '' @ str_of_nat (length papers) @ '' files'')) s
         in if papers = []
            then (Inr (), wm_update wid
                     (terminal_update ''completed'' 100
                        ''No content could be extracted from uploaded files''
                        (empty_result ''No content could be extracted from uploaded files'')) s)
            else
              (let s = wm_update wid (progress_message 30 ''Starting document analysis...'') s
               in bind (analysis_loop ag wid 30 ''document'' (length papers) 0 papers s)
                    (\<lambda>(papers, clss, summaries) s.
                  let s = wm_update wid
                            (progress_message 70 ''Synthesizing findings across documents...'') s
                  in bind (call Synthesis (synthesis ag \<lparr> in_papers = papers, in_classifications = clss,
                                                           in_summaries = summaries \<rparr>) s) (\<lambda>syn s.
                     let s = wm_update wid (progress_message 80 ''Synthesis completed'') s;
                         s = wm_update wid (progress_message 85 ''Generating audio summary...'') s
                     in bind (call Audio (audio ag syn) s) (\<lambda>audio_files s.
                        let s = wm_update wid (progress_message 95 ''Audio generation completed'') s;
                            s = wm_update wid (progress_message 98 ''Finalizing results...'') s;
                            result = finished_result (Some wid) papers clss summaries syn audio_files
                        in (Inr (), wm_update wid
                              (terminal_update ''completed'' 100
                                 ''Upload processing completed successfully!''
                                 (Pipeline_result result)) s)))))))"

definition upload_job_except ::
    "agents \<Rightarrow> string \<Rightarrow> string \<Rightarrow> orchestrator \<Rightarrow> (exn + unit) \<times> orchestrator" where
  \<comment> \<open>the body of \<open>except Exception as e\<close> in \<open>_process_upload_background\<close>\<close>
  "upload_job_except ag wid e s =
     bind (print_line ag (upload_error_line wid e) s) (\<lambda>u s.
     bind (print_line ag (traceback_line ag e) s) (\<lambda>u s.
       (Inr (), wm_update wid
          (terminal_update ''failed'' 0 (''Upload processing failed: '' @ e)
             (Error_result wid e ''failed'')) s)))"

definition process_upload_background ::
    "agents \<Rightarrow> string \<Rightarrow> string \<Rightarrow> upload_request \<Rightarrow> orchestrator \<Rightarrow> (exn + unit) \<times> orchestrator" where
  \<comment> \<open>\<open>_process_upload_background\<close>: the \<open>try\<close> block under its \<open>except Exception\<close>\<close>
  "process_upload_background ag now wid request s =
     (case upload_job_body ag now wid request s of
        (Inr u, s') \<Rightarrow> (Inr (), s')
      | (Inl (Exception e), s') \<Rightarrow> upload_job_except ag wid e s'
      | (Inl (BaseException b), s') \<Rightarrow> (Inl (BaseException b), s'))"

subsection \<open>The HTTP surface\<close>



datatype task = Search_background string search_request | Upload_background string upload_request






definition run_task :: "agents \<Rightarrow> string \<Rightarrow> task \<Rightarrow> orchestrator \<Rightarrow> (exn + unit) \<times> orchestrator" where
  "run_task ag now t s =
     (case t of
        Search_background wid request \<Rightarrow> process_search_background ag now wid request s
      | Upload_background wid request \<Rightarrow> process_upload_background ag now wid request s)"

section \<open>Reading a run\<close>

definition arxiv_paper :: "string \<Rightarrow> string \<Rightarrow> string \<Rightarrow> ResearchPaper" where
  \<comment> \<open>the paper \<open>DiscoveryAgent._parse_arxiv_response\<close> builds for an entry without authors
      and links: the abstract doubles as content and the topics are empty\<close>
  "arxiv_paper ident title abstract =
     \<lparr> p_id = ident, p_title = title, p_authors = [], p_abstract = abstract,
       p_content = abstract, p_doi = [], p_url = [], p_topics = [] \<rparr>"

definition stored_result :: "orchestrator \<Rightarrow> string \<Rightarrow> pipeline_result option" where
  \<comment> \<open>the payload of a finished run, as stored in the workflow record\<close>
  "stored_result s wid =
     (case workflows s wid of
        None \<Rightarrow> None
      | Some w \<Rightarrow> (case wf_results w of Some (Pipeline_result r) \<Rightarrow> Some r | _ \<Rightarrow> None))"


definition is_terminal :: "string \<Rightarrow> bool" where
  "is_terminal st = (st = ''completed'' \<or> st = ''failed'')"

fun terminal_write :: "string \<Rightarrow> event \<Rightarrow> bool" where
  \<comment> \<open>a write that puts the record of the workflow into a terminal state\<close>
  "terminal_write wid (Create_workflow w st) = (w = wid \<and> is_terminal st)"
| "terminal_write wid (Update_workflow w kw) =
     (w = wid \<and> (case kw_status kw of None \<Rightarrow> False | Some st \<Rightarrow> is_terminal st))"
| "terminal_write wid (Agent_call n) = False"

fun progress_writes :: "string \<Rightarrow> event list \<Rightarrow> nat list" where
  \<comment> \<open>the progress values written to the record of the workflow, in order\<close>
  "progress_writes wid [] = []"
| "progress_writes wid (Create_workflow w st # evs) =
     (if w = wid then 0 # progress_writes wid evs else progress_writes wid evs)"
| "progress_writes wid (Update_workflow w kw # evs) =
     (case kw_progress kw of
        Some p \<Rightarrow> if w = wid then p # progress_writes wid evs else progress_writes wid evs
      | None \<Rightarrow> progress_writes wid evs)"
| "progress_writes wid (Agent_call n # evs) = progress_writes wid evs"

fun task_id :: "task \<Rightarrow> string" where
  "task_id (Search_background wid request) = wid"
| "task_id (Upload_background wid request) = wid"

definition tracked :: "string \<Rightarrow> string \<Rightarrow> orchestrator \<Rightarrow> bool" where
  \<comment> \<open>the registry holds a record under this id, created at this time\<close>
  "tracked wid now s =
     (case workflows s wid of None \<Rightarrow> False | Some w \<Rightarrow> wf_id w = wid \<and> wf_created_at w = now)"

definition steady :: "string \<Rightarrow> nat \<Rightarrow> nat \<Rightarrow> event list \<Rightarrow> bool" where
  \<comment> \<open>no event puts the workflow into a terminal state, and the progress values written to
      it never decrease and stay between the two bounds\<close>
  "steady wid lo hi evs =
     (list_all (\<lambda>e. \<not> terminal_write wid e) evs \<and> sorted (progress_writes wid evs) \<and>
      list_all (\<lambda>p. lo \<le> p \<and> p \<le> hi) (progress_writes wid evs))"

section \<open>Configurations for concrete runs\<close>

definition plain_summarizer :: SummarizationAgent where
  \<comment> \<open>the Summarizer as its constructor leaves it (no model), without NLTK; on the texts of
      the runs below neither insight pattern has a match\<close>
  "plain_summarizer =
     \<lparr> model_available = False, summarizer = None, sent_tokenize = (\<lambda>text. None),
       re_findall = (\<lambda>pattern text. []), sentence_score = (\<lambda>sentences idx. 0) \<rparr>"

definition agents_finding :: "ResearchPaper list \<Rightarrow> agents" where
  \<comment> \<open>the Classifier and the Summarizer of the repository, around a Source that finds the
      given papers, a Synthesizer and a Narrator that return fixed values, and a standard
      output that writes every line\<close>
  "agents_finding papers =
     \<lparr> discovery = (\<lambda>request. Inr papers),
       extraction = (\<lambda>request. Inr papers),
       classification = (\<lambda>paper. Inr (classification_process paper)),
       summarization = (\<lambda>paper. Inr (summarization_process plain_summarizer paper)),
       synthesis = (\<lambda>input. Inr \<lparr> syn_synthesis = ''This synthesis analyzes research papers.'',
                                    syn_topic_analysis = None,
                                    syn_paper_count = length (in_papers input),
                                    syn_methodology = Some ''enhanced_synthesis'' \<rparr>),
       audio = (\<lambda>syn. Inr [''audio/synthesis_u1.mp3'']),
       stdout = (\<lambda>text. None),
       format_exc = (\<lambda>e. ''Traceback (most recent call last): '' @ e) \<rparr>"

definition agents_raising :: "exn \<Rightarrow> ResearchPaper list \<Rightarrow> agents" where
  \<comment> \<open>the same agents, with a Classifier whose call raises\<close>
  "agents_raising x papers = (agents_finding papers)\<lparr> classification := (\<lambda>paper. Inl x) \<rparr>"

definition utf8_stdout :: "string \<Rightarrow> string option" where
  \<comment> \<open>a UTF-8 standard output; the character \<open>0xFF\<close> stands for a lone surrogate, which has
      no encoding, and the message is the reason a \<open>UnicodeEncodeError\<close> gives for it\<close>
  "utf8_stdout text =
     (if CHR 0xFF \<in> set text then Some ''surrogates not allowed'' else None)"

definition agents_printing :: "ResearchPaper list \<Rightarrow> agents" where
  \<comment> \<open>the same agents on a UTF-8 standard output\<close>
  "agents_printing papers = (agents_finding papers)\<lparr> stdout := utf8_stdout \<rparr>"

definition fresh_orchestrator :: orchestrator where
  "fresh_orchestrator = \<lparr> workflows = Map.empty, trace = [] \<rparr>"


section \<open>The registry and the trace, step by step\<close>

lemma wm_create_record:
  "wm_create now wid st \<lparr> workflows = W, trace = T \<rparr> =
     \<lparr> workflows = create_workflow now wid st W, trace = T @ [Create_workflow wid st] \<rparr>"
  by (simp add: wm_create_def)

lemma wm_update_record:
  "wm_update wid kw \<lparr> workflows = W, trace = T \<rparr> =
     \<lparr> workflows = update_workflow wid kw W, trace = T @ [Update_workflow wid kw] \<rparr>"
  by (simp add: wm_update_def)

lemma call_record:
  "call name r \<lparr> workflows = W, trace = T \<rparr> = (r, \<lparr> workflows = W, trace = T @ [Agent_call name] \<rparr>)"
  by (simp add: call_def)

lemma bind_Inr: "bind (Inr x, s) f = f x s"
  by (simp add: bind_def)

lemma bind_Inl: "bind (Inl e, s) f = (Inl e, s)"
  by (simp add: bind_def)

lemma update_workflow_known:
  "update_workflow wid kw (W(wid \<mapsto> w)) = W(wid \<mapsto> dict_update kw w)"
  by (simp add: update_workflow_def)

lemma create_workflow_upd:
  "create_workflow now wid st W =
     W(wid \<mapsto> \<lparr> wf_id = wid, wf_status = st, wf_progress = 0, wf_message = ''Workflow created'',
                 wf_created_at = now, wf_results = None \<rparr>)"
  by (simp add: create_workflow_def)

lemma dict_update_progress_message:
  "dict_update (progress_message p m) w = w\<lparr> wf_progress := p, wf_message := m \<rparr>"
  by (simp add: dict_update_def progress_message_def)

lemma dict_update_terminal:
  "dict_update (terminal_update st p m r) w =
     w\<lparr> wf_status := st, wf_progress := p, wf_message := m, wf_results := Some r \<rparr>"
  by (simp add: dict_update_def terminal_update_def)

lemmas run_simps =
  wm_create_record wm_update_record call_record bind_Inr bind_Inl update_workflow_known
  create_workflow_upd dict_update_progress_message dict_update_terminal

lemma str_of_nat_0: "str_of_nat 0 = ''0''"
  by code_simp

lemma str_of_nat_1: "str_of_nat (Suc 0) = ''1''"
  by code_simp

lemma trace_wm_update [simp]: "trace (wm_update wid kw s) = trace s @ [Update_workflow wid kw]"
  by (simp add: wm_update_def)

lemma trace_wm_create [simp]: "trace (wm_create now wid st s) = trace s @ [Create_workflow wid st]"
  by (simp add: wm_create_def)

lemma workflows_wm_update [simp]:
  "workflows (wm_update wid kw s) = update_workflow wid kw (workflows s)"
  by (simp add: wm_update_def)

lemma workflows_wm_create [simp]:
  "workflows (wm_create now wid st s) = create_workflow now wid st (workflows s)"
  by (simp add: wm_create_def)

lemma progress_writes_append:
  "progress_writes wid (xs @ ys) = progress_writes wid xs @ progress_writes wid ys"
  by (induction xs rule: progress_writes.induct) (auto split: option.splits)


lemma steady_Nil [simp]: "steady wid lo hi []"
  by (simp add: steady_def)

lemma steady_call [simp]: "steady wid lo hi (Agent_call n # evs) = steady wid lo hi evs"
  by (simp add: steady_def)

lemma steady_update:
  "steady wid lo hi (Update_workflow wid (progress_message p m) # evs) =
     (lo \<le> p \<and> p \<le> hi \<and> steady wid p hi evs)"
  by (auto simp: steady_def progress_message_def list_all_iff)

lemma steady_create:
  "steady wid lo hi (Create_workflow wid ''processing'' # evs) = (lo = 0 \<and> steady wid 0 hi evs)"
  by (auto simp: steady_def is_terminal_def list_all_iff)

lemma steady_weaken:
  "steady wid lo hi evs \<Longrightarrow> lo' \<le> lo \<Longrightarrow> hi \<le> hi' \<Longrightarrow> steady wid lo' hi' evs"
  by (auto simp: steady_def list_all_iff)

lemma steady_append:
  "steady wid lo mid xs \<Longrightarrow> steady wid mid hi ys \<Longrightarrow> lo \<le> mid \<Longrightarrow> mid \<le> hi
     \<Longrightarrow> steady wid lo hi (xs @ ys)"
  by (fastforce simp: steady_def progress_writes_append sorted_append list_all_iff)

lemma scaled_progress_mono: "(i * 35) div tot \<le> (Suc i * 35) div (tot::nat)"
  by (rule div_le_mono) simp

lemma scaled_progress_bound: "i \<le> tot \<Longrightarrow> (i * 35) div tot \<le> (35::nat)"
proof (cases "tot = 0")
  case True
  then show ?thesis by simp
next
  case False
  assume "i \<le> tot"
  then have "(i * 35) div tot \<le> (tot * 35) div tot" by (intro div_le_mono) simp
  with False show ?thesis by simp
qed

lemma analysis_loop_trace:
  "i + length ps = tot \<Longrightarrow> analysis_loop ag wid base noun tot i ps s = (r, s')
     \<Longrightarrow> \<exists>evs. trace s' = trace s @ evs \<and> steady wid (base + (i * 35) div tot) (base + 35) evs"
proof (induction ps arbitrary: i s r s')
  case Nil
  then show ?case by simp
next
  case (Cons paper rest)
  let ?p = "base + (i * 35) div tot"
  let ?q = "base + (Suc i * 35) div tot"
  have pq: "?p \<le> ?q" using scaled_progress_mono[of i tot] by simp
  have q35: "?q \<le> base + 35" using Cons.prems(1) scaled_progress_bound[of "Suc i" tot] by simp
  have rec: "\<And>s0 r0 s1. analysis_loop ag wid base noun tot (Suc i) rest s0 = (r0, s1)
      \<Longrightarrow> \<exists>evs. trace s1 = trace s0 @ evs \<and> steady wid ?p (base + 35) evs"
  proof -
    fix s0 r0 s1
    assume a: "analysis_loop ag wid base noun tot (Suc i) rest s0 = (r0, s1)"
    have "Suc i + length rest = tot" using Cons.prems(1) by simp
    from Cons.IH[OF this a] obtain evs
      where "trace s1 = trace s0 @ evs" "steady wid ?q (base + 35) evs" by blast
    then show "\<exists>evs. trace s1 = trace s0 @ evs \<and> steady wid ?p (base + 35) evs"
      using steady_weaken[of wid ?q "base + 35" evs ?p "base + 35"] pq by blast
  qed
  show ?case
  proof (cases "classification ag paper")
    case (Inl e)
    with Cons.prems(2) pq q35 show ?thesis
      by (auto simp: bind_def call_def steady_update Let_def)
  next
    case cls: (Inr c)
    show ?thesis
    proof (cases "summarization ag paper")
      case (Inl e)
      with cls Cons.prems(2) pq q35 show ?thesis
        by (auto simp: bind_def call_def steady_update Let_def)
    next
      case sm: (Inr m)
      obtain r0 s1 where loop: "analysis_loop ag wid base noun tot (Suc i) rest
          (snd (call Summarization (summarization ag paper)
             (snd (call Classification (classification ag paper)
                (wm_update wid (progress_message ?p
                   (''Analyzing '' @ noun @ '' '' @ str_of_nat (i + 1) @ ''/'' @ str_of_nat tot @
                    '': '' @ take 50 (p_title paper) @ ''...'')) s))))) = (r0, s1)"
        by (meson surj_pair)
      from rec[OF loop] obtain evs where evs: "trace s1 = trace
          (snd (call Summarization (summarization ag paper)
             (snd (call Classification (classification ag paper)
                (wm_update wid (progress_message ?p
                   (''Analyzing '' @ noun @ '' '' @ str_of_nat (i + 1) @ ''/'' @ str_of_nat tot @
                    '': '' @ take 50 (p_title paper) @ ''...'')) s))))) @ evs"
        "steady wid ?p (base + 35) evs" by blast
      have s': "s' = s1"
        using Cons.prems(2) cls sm loop
        by (auto simp: bind_def call_def Let_def split: sum.splits prod.splits)
      show ?thesis
        using evs s' pq q35
        by (simp add: call_def steady_update)
    qed
  qed
qed

section \<open>What every run preserves\<close>

lemma analysis_loop_preserves:
  assumes upd: "\<And>kw s. P s \<Longrightarrow> P (wm_update wid kw s)"
    and tr: "\<And>s evs. P s \<Longrightarrow> P (s\<lparr> trace := evs \<rparr>)"
  shows "P s \<Longrightarrow> analysis_loop ag wid base noun tot i ps s = (r, s') \<Longrightarrow> P s'"
proof (induction ps arbitrary: i s r s')
  case Nil
  then show ?case by simp
next
  case (Cons paper rest)
  let ?s1 = "wm_update wid (progress_message (base + (i * 35) div tot)
                   (''Analyzing '' @ noun @ '' '' @ str_of_nat (i + 1) @ ''/'' @ str_of_nat tot @
                    '': '' @ take 50 (p_title paper) @ ''...'')) s"
  have p1: "P ?s1" using Cons.prems(1) by (rule upd)
  let ?s2 = "?s1\<lparr> trace := trace ?s1 @ [Agent_call Classification] \<rparr>"
  have p2: "P ?s2" using p1 by (rule tr)
  let ?s3 = "?s2\<lparr> trace := trace ?s2 @ [Agent_call Summarization] \<rparr>"
  have p3: "P ?s3" using p2 by (rule tr)
  show ?case
  proof (cases "classification ag paper")
    case (Inl e)
    with Cons.prems(2) p2 show ?thesis
      by (auto simp: bind_def call_def Let_def)
  next
    case cls: (Inr c)
    show ?thesis
    proof (cases "summarization ag paper")
      case (Inl e)
      with cls Cons.prems(2) p3 show ?thesis
        by (auto simp: bind_def call_def Let_def)
    next
      case sm: (Inr m)
      obtain r0 s1 where loop: "analysis_loop ag wid base noun tot (Suc i) rest ?s3 = (r0, s1)"
        by (meson surj_pair)
      have "P s1" using Cons.IH[OF p3 loop] .
      moreover have "s' = s1"
        using Cons.prems(2) cls sm loop
        by (auto simp: bind_def call_def Let_def split: sum.splits prod.splits)
      ultimately show ?thesis by simp
    qed
  qed
qed

section \<open>The shape of a run\<close>

lemma bind_call:
  "bind (call n r s) f =
     (case r of Inl e \<Rightarrow> (Inl e, s\<lparr> trace := trace s @ [Agent_call n] \<rparr>)
      | Inr x \<Rightarrow> f x (s\<lparr> trace := trace s @ [Agent_call n] \<rparr>))"
  by (simp add: bind_def call_def split: sum.splits)

lemma bind_loop:
  "bind (analysis_loop ag wid b noun tot i ps s) f =
     (case analysis_loop ag wid b noun tot i ps s of
        (Inl e, s') \<Rightarrow> (Inl e, s')
      | (Inr x, s') \<Rightarrow> f x s')"
  by (simp add: bind_def)

lemma search_job_stages_run:
  assumes upd: "\<And>kw s. P s \<Longrightarrow> P (wm_update wid kw s)"
    and tr: "\<And>s evs. P s \<Longrightarrow> P (s\<lparr> trace := evs \<rparr>)"
    and start: "P (wm_create now wid ''processing'' s)"
    and run: "search_job_stages ag now wid request s = (r, s')"
  shows "case r of
           Inl e \<Rightarrow> P s' \<and> (\<exists>evs. trace s' = trace s @ evs \<and> steady wid 0 98 evs \<and> Create_workflow wid ''processing'' \<in> set evs)
         | Inr u \<Rightarrow>
             \<exists>sp m res. s' = wm_update wid (terminal_update ''completed'' 100 m res) sp \<and> P sp \<and>
                (\<exists>pre. trace sp = trace s @ pre \<and> steady wid 0 98 pre \<and> Create_workflow wid ''processing'' \<in> set pre)"
proof -
  let ?s1 = "wm_create now wid ''processing'' s"
  let ?s2 = "wm_update wid (progress_message 20 ''Searching ArXiv database...'') ?s1"
  let ?s3 = "?s2\<lparr> trace := trace ?s2 @ [Agent_call Discovery] \<rparr>"
  have p3: "P ?s3" by (intro tr upd start)
  show ?thesis
  proof (cases "discovery ag request")
    case (Inl e)
    then have "r = Inl e" "s' = ?s3"
      using run by (simp_all add: search_job_stages_def search_job_rest_def search_job_open_def Let_def bind_call)
    then show ?thesis using p3 by (simp add: steady_update steady_create)
  next
    case disc: (Inr papers)
    let ?s4 = "wm_update wid (progress_message 30 (''Found '' @ str_of_nat (length papers) @ '' papers'')) ?s3"
    have p4: "P ?s4" by (intro upd p3)
    show ?thesis
    proof (cases "papers = []")
      case True
      let ?kw = "terminal_update ''completed'' 100 ''No papers found''
                   (empty_result ''No papers found for the search query'')"
      have rs: "r = Inr ()" "s' = wm_update wid ?kw ?s4"
        using run disc True by (simp_all add: search_job_stages_def search_job_rest_def search_job_open_def Let_def bind_call)
      have "\<exists>pre. trace ?s4 = trace s @ pre \<and> steady wid 0 98 pre \<and> Create_workflow wid ''processing'' \<in> set pre"
        by (simp add: steady_update steady_create)
      with p4 have "\<exists>sp m res. wm_update wid ?kw ?s4 =
            wm_update wid (terminal_update ''completed'' 100 m res) sp \<and> P sp \<and>
            (\<exists>pre. trace sp = trace s @ pre \<and> steady wid 0 98 pre \<and> Create_workflow wid ''processing'' \<in> set pre)"
        by blast
      then show ?thesis using rs by simp
    next
      case False
      let ?s5 = "wm_update wid (progress_message 35 ''Starting paper analysis...'') ?s4"
      have p5: "P ?s5" by (intro upd p4)
      obtain r2 s6 where loop: "analysis_loop ag wid 35 ''paper'' (length papers) 0 papers ?s5 = (r2, s6)"
        by (meson surj_pair)
      have p6: "P s6"
        using analysis_loop_preserves[where P = P, OF upd tr p5 loop] .
      obtain evs2 where evs2: "trace s6 = trace ?s5 @ evs2" "steady wid 35 (35 + 35) evs2"
        using analysis_loop_trace[OF _ loop] by auto
      show ?thesis
      proof (cases r2)
        case (Inl e)
        then have "r = Inl e" "s' = s6"
          using run disc False loop
          by (simp_all add: search_job_stages_def search_job_rest_def search_job_open_def Let_def bind_call bind_loop)
        moreover have "steady wid 35 98 evs2"
          using steady_weaken[OF evs2(2), of 35 98] by simp
        ultimately show ?thesis using p6 evs2(1)
          by (simp add: steady_update steady_create)
      next
        case (Inr triple)
        obtain ps clss sms where triple: "triple = (ps, clss, sms)"
          by (cases triple) auto
        note r2 = Inr[unfolded triple]
        let ?s7 = "wm_update wid (progress_message 75 ''Synthesizing findings across papers...'') s6"
        let ?s8 = "?s7\<lparr> trace := trace ?s7 @ [Agent_call Synthesis] \<rparr>"
        have p8: "P ?s8" by (intro tr upd p6)
        have st8: "steady wid 35 98 (evs2 @ [Update_workflow wid (progress_message 75 ''Synthesizing findings across papers...''),
                      Agent_call Synthesis])"
          by (rule steady_append[OF evs2(2), where hi = 98]) (simp_all add: steady_update)
        show ?thesis
        proof (cases "synthesis ag \<lparr> in_papers = ps, in_classifications = clss, in_summaries = sms \<rparr>")
          case (Inl e)
          then have "r = Inl e" "s' = ?s8"
            using run disc False loop r2
            by (simp_all add: search_job_stages_def search_job_rest_def search_job_open_def Let_def bind_call bind_loop)
          then show ?thesis using p8 evs2(1) st8
            by (simp add: steady_update steady_create)
        next
          case syn: (Inr sy)
          let ?s9 = "wm_update wid (progress_message 85 ''Synthesis completed'') ?s8"
          let ?s10 = "wm_update wid (progress_message 90 ''Generating audio summary...'') ?s9"
          let ?s11 = "?s10\<lparr> trace := trace ?s10 @ [Agent_call Audio] \<rparr>"
          have p11: "P ?s11" by (intro tr upd p8)
          have st11: "steady wid 35 98 (evs2 @ [Update_workflow wid (progress_message 75 ''Synthesizing findings across papers...''),
                      Agent_call Synthesis,
                      Update_workflow wid (progress_message 85 ''Synthesis completed''),
                      Update_workflow wid (progress_message 90 ''Generating audio summary...''),
                      Agent_call Audio])"
            by (rule steady_append[OF evs2(2), where hi = 98]) (simp_all add: steady_update)
          show ?thesis
          proof (cases "audio ag sy")
            case (Inl e)
            then have "r = Inl e" "s' = ?s11"
              using run disc False loop r2 syn
              by (simp_all add: search_job_stages_def search_job_rest_def search_job_open_def Let_def bind_call bind_loop)
            then show ?thesis using p11 evs2(1) st11
              by (simp add: steady_update steady_create)
          next
            case aud: (Inr af)
            let ?s12 = "wm_update wid (progress_message 95 ''Audio generation completed'') ?s11"
            let ?s13 = "wm_update wid (progress_message 98 ''Finalizing results...'') ?s12"
            let ?kw = "terminal_update ''completed'' 100 ''Processing completed successfully!''
                         (Pipeline_result (finished_result (Some wid) ps clss sms sy af))"
            have st13: "steady wid 35 98 (evs2 @ [Update_workflow wid (progress_message 75 ''Synthesizing findings across papers...''),
                      Agent_call Synthesis,
                      Update_workflow wid (progress_message 85 ''Synthesis completed''),
                      Update_workflow wid (progress_message 90 ''Generating audio summary...''),
                      Agent_call Audio,
                      Update_workflow wid (progress_message 95 ''Audio generation completed''),
                      Update_workflow wid (progress_message 98 ''Finalizing results...'')])"
              by (rule steady_append[OF evs2(2), where hi = 98]) (simp_all add: steady_update)
            have rs: "r = Inr ()" "s' = wm_update wid ?kw ?s13"
              using run disc False loop r2 syn aud
              by (simp_all add: search_job_stages_def search_job_rest_def search_job_open_def Let_def bind_call bind_loop)
            have p13: "P ?s13" by (intro upd p11)
            have "\<exists>pre. trace ?s13 = trace s @ pre \<and> steady wid 0 98 pre \<and> Create_workflow wid ''processing'' \<in> set pre"
              using evs2(1) st13 by (simp add: steady_update steady_create)
            with p13 have "\<exists>sp m res. wm_update wid ?kw ?s13 =
                  wm_update wid (terminal_update ''completed'' 100 m res) sp \<and> P sp \<and>
                  (\<exists>pre. trace sp = trace s @ pre \<and> steady wid 0 98 pre \<and> Create_workflow wid ''processing'' \<in> set pre)"
              by blast
            then show ?thesis using rs by simp
          qed
        qed
      qed
    qed
  qed
qed

lemma upload_job_body_run:
  assumes upd: "\<And>kw s. P s \<Longrightarrow> P (wm_update wid kw s)"
    and tr: "\<And>s evs. P s \<Longrightarrow> P (s\<lparr> trace := evs \<rparr>)"
    and start: "P (wm_create now wid ''processing'' s)"
    and run: "upload_job_body ag now wid request s = (r, s')"
  shows "case r of
           Inl e \<Rightarrow> P s' \<and> (\<exists>evs. trace s' = trace s @ evs \<and> steady wid 0 98 evs \<and> Create_workflow wid ''processing'' \<in> set evs)
         | Inr u \<Rightarrow>
             \<exists>sp m res. s' = wm_update wid (terminal_update ''completed'' 100 m res) sp \<and> P sp \<and>
                (\<exists>pre. trace sp = trace s @ pre \<and> steady wid 0 98 pre \<and> Create_workflow wid ''processing'' \<in> set pre)"
proof -
  let ?s1 = "wm_create now wid ''processing'' s"
  let ?s2 = "wm_update wid (progress_message 10 ''Processing uploaded files...'') ?s1"
  let ?s3 = "?s2\<lparr> trace := trace ?s2 @ [Agent_call Extraction] \<rparr>"
  have p3: "P ?s3" by (intro tr upd start)
  show ?thesis
  proof (cases "extraction ag request")
    case (Inl e)
    then have "r = Inl e" "s' = ?s3"
      using run by (simp_all add: upload_job_body_def Let_def Let_def bind_call)
    then show ?thesis using p3 by (simp add: steady_update steady_create)
  next
    case disc: (Inr papers)
    let ?s4 = "wm_update wid (progress_message 25 (''Extracted content from '' @ str_of_nat (length papers) @ '' files'')) ?s3"
    have p4: "P ?s4" by (intro upd p3)
    show ?thesis
    proof (cases "papers = []")
      case True
      let ?kw = "terminal_update ''completed'' 100 ''No content could be extracted from uploaded files''
                   (empty_result ''No content could be extracted from uploaded files'')"
      have rs: "r = Inr ()" "s' = wm_update wid ?kw ?s4"
        using run disc True by (simp_all add: upload_job_body_def Let_def Let_def bind_call)
      have "\<exists>pre. trace ?s4 = trace s @ pre \<and> steady wid 0 98 pre \<and> Create_workflow wid ''processing'' \<in> set pre"
        by (simp add: steady_update steady_create)
      with p4 have "\<exists>sp m res. wm_update wid ?kw ?s4 =
            wm_update wid (terminal_update ''completed'' 100 m res) sp \<and> P sp \<and>
            (\<exists>pre. trace sp = trace s @ pre \<and> steady wid 0 98 pre \<and> Create_workflow wid ''processing'' \<in> set pre)"
        by blast
      then show ?thesis using rs by simp
    next
      case False
      let ?s5 = "wm_update wid (progress_message 30 ''Starting document analysis...'') ?s4"
      have p5: "P ?s5" by (intro upd p4)
      obtain r2 s6 where loop: "analysis_loop ag wid 30 ''document'' (length papers) 0 papers ?s5 = (r2, s6)"
        by (meson surj_pair)
      have p6: "P s6"
        using analysis_loop_preserves[where P = P, OF upd tr p5 loop] .
      obtain evs2 where evs2: "trace s6 = trace ?s5 @ evs2" "steady wid 30 (30 + 35) evs2"
        using analysis_loop_trace[OF _ loop] by auto
      show ?thesis
      proof (cases r2)
        case (Inl e)
        then have "r = Inl e" "s' = s6"
          using run disc False loop
          by (simp_all add: upload_job_body_def Let_def Let_def bind_call bind_loop)
        moreover have "steady wid 30 98 evs2"
          using steady_weaken[OF evs2(2), of 30 98] by simp
        ultimately show ?thesis using p6 evs2(1)
          by (simp add: steady_update steady_create)
      next
        case (Inr triple)
        obtain ps clss sms where triple: "triple = (ps, clss, sms)"
          by (cases triple) auto
        note r2 = Inr[unfolded triple]
        let ?s7 = "wm_update wid (progress_message 70 ''Synthesizing findings across documents...'') s6"
        let ?s8 = "?s7\<lparr> trace := trace ?s7 @ [Agent_call Synthesis] \<rparr>"
        have p8: "P ?s8" by (intro tr upd p6)
        have st8: "steady wid 30 98 (evs2 @ [Update_workflow wid (progress_message 70 ''Synthesizing findings across documents...''),
                      Agent_call Synthesis])"
          by (rule steady_append[OF evs2(2), where hi = 98]) (simp_all add: steady_update)
        show ?thesis
        proof (cases "synthesis ag \<lparr> in_papers = ps, in_classifications = clss, in_summaries = sms \<rparr>")
          case (Inl e)
          then have "r = Inl e" "s' = ?s8"
            using run disc False loop r2
            by (simp_all add: upload_job_body_def Let_def Let_def bind_call bind_loop)
          then show ?thesis using p8 evs2(1) st8
            by (simp add: steady_update steady_create)
        next
          case syn: (Inr sy)
          let ?s9 = "wm_update wid (progress_message 80 ''Synthesis completed'') ?s8"
          let ?s10 = "wm_update wid (progress_message 85 ''Generating audio summary...'') ?s9"
          let ?s11 = "?s10\<lparr> trace := trace ?s10 @ [Agent_call Audio] \<rparr>"
          have p11: "P ?s11" by (intro tr upd p8)
          have st11: "steady wid 30 98 (evs2 @ [Update_workflow wid (progress_message 70 ''Synthesizing findings across documents...''),
                      Agent_call Synthesis,
                      Update_workflow wid (progress_message 80 ''Synthesis completed''),
                      Update_workflow wid (progress_message 85 ''Generating audio summary...''),
                      Agent_call Audio])"
            by (rule steady_append[OF evs2(2), where hi = 98]) (simp_all add: steady_update)
          show ?thesis
          proof (cases "audio ag sy")
            case (Inl e)
            then have "r = Inl e" "s' = ?s11"
              using run disc False loop r2 syn
              by (simp_all add: upload_job_body_def Let_def Let_def bind_call bind_loop)
            then show ?thesis using p11 evs2(1) st11
              by (simp add: steady_update steady_create)
          next
            case aud: (Inr af)
            let ?s12 = "wm_update wid (progress_message 95 ''Audio generation completed'') ?s11"
            let ?s13 = "wm_update wid (progress_message 98 ''Finalizing results...'') ?s12"
            let ?kw = "terminal_update ''completed'' 100 ''Upload processing completed successfully!''
                         (Pipeline_result (finished_result (Some wid) ps clss sms sy af))"
            have st13: "steady wid 30 98 (evs2 @ [Update_workflow wid (progress_message 70 ''Synthesizing findings across documents...''),
                      Agent_call Synthesis,
                      Update_workflow wid (progress_message 80 ''Synthesis completed''),
                      Update_workflow wid (progress_message 85 ''Generating audio summary...''),
                      Agent_call Audio,
                      Update_workflow wid (progress_message 95 ''Audio generation completed''),
                      Update_workflow wid (progress_message 98 ''Finalizing results...'')])"
              by (rule steady_append[OF evs2(2), where hi = 98]) (simp_all add: steady_update)
            have rs: "r = Inr ()" "s' = wm_update wid ?kw ?s13"
              using run disc False loop r2 syn aud
              by (simp_all add: upload_job_body_def Let_def Let_def bind_call bind_loop)
            have p13: "P ?s13" by (intro upd p11)
            have "\<exists>pre. trace ?s13 = trace s @ pre \<and> steady wid 0 98 pre \<and> Create_workflow wid ''processing'' \<in> set pre"
              using evs2(1) st13 by (simp add: steady_update steady_create)
            with p13 have "\<exists>sp m res. wm_update wid ?kw ?s13 =
                  wm_update wid (terminal_update ''completed'' 100 m res) sp \<and> P sp \<and>
                  (\<exists>pre. trace sp = trace s @ pre \<and> steady wid 0 98 pre \<and> Create_workflow wid ''processing'' \<in> set pre)"
              by blast
            then show ?thesis using rs by simp
          qed
        qed
      qed
    qed
  qed
qed

section \<open>The record of a workflow during its run\<close>

lemma tracked_create: "tracked wid now (wm_create now wid st s)"
  by (simp add: tracked_def create_workflow_def)

lemma tracked_update: "tracked wid now s \<Longrightarrow> tracked wid now (wm_update w kw s)"
  by (auto simp: tracked_def update_workflow_def dict_update_def split: option.splits)

lemma tracked_trace: "tracked wid now s \<Longrightarrow> tracked wid now (s\<lparr> trace := evs \<rparr>)"
  by (simp add: tracked_def)

lemma frame_update: "w \<noteq> wid \<Longrightarrow> workflows (wm_update wid kw s) w = workflows s w"
  by (simp add: update_workflow_def split: option.splits)

lemma terminal_on_tracked:
  assumes "tracked wid now s"
  shows "workflows (wm_update wid (terminal_update st p m res) s) wid =
           Some \<lparr> wf_id = wid, wf_status = st, wf_progress = p, wf_message = m,
                  wf_created_at = now, wf_results = Some res \<rparr>"
proof -
  from assms obtain w where w: "workflows s wid = Some w" "wf_id w = wid" "wf_created_at w = now"
    by (auto simp: tracked_def split: option.splits)
  then show ?thesis
    by (cases w) (simp add: update_workflow_def dict_update_terminal)
qed

lemma search_job_stages_facts:
  assumes run: "search_job_stages ag now wid request s = (r, s')"
  shows "case r of
           Inl e \<Rightarrow> tracked wid now s' \<and> (\<forall>w. w \<noteq> wid \<longrightarrow> workflows s' w = workflows s w) \<and>
                    (\<exists>evs. trace s' = trace s @ evs \<and> steady wid 0 98 evs \<and> Create_workflow wid ''processing'' \<in> set evs)
         | Inr u \<Rightarrow>
             \<exists>sp m res. s' = wm_update wid (terminal_update ''completed'' 100 m res) sp \<and>
                tracked wid now sp \<and> (\<forall>w. w \<noteq> wid \<longrightarrow> workflows sp w = workflows s w) \<and>
                (\<exists>pre. trace sp = trace s @ pre \<and> steady wid 0 98 pre \<and> Create_workflow wid ''processing'' \<in> set pre)"
proof -
  let ?P = "\<lambda>x. tracked wid now x \<and> (\<forall>w. w \<noteq> wid \<longrightarrow> workflows x w = workflows s w)"
  have "case r of
           Inl e \<Rightarrow> ?P s' \<and> (\<exists>evs. trace s' = trace s @ evs \<and> steady wid 0 98 evs \<and> Create_workflow wid ''processing'' \<in> set evs)
         | Inr u \<Rightarrow>
             \<exists>sp m res. s' = wm_update wid (terminal_update ''completed'' 100 m res) sp \<and> ?P sp \<and>
                (\<exists>pre. trace sp = trace s @ pre \<and> steady wid 0 98 pre \<and> Create_workflow wid ''processing'' \<in> set pre)"
  proof (rule search_job_stages_run[where P = ?P, OF _ _ _ run])
    show "\<And>kw x. ?P x \<Longrightarrow> ?P (wm_update wid kw x)"
      using tracked_update frame_update by (metis (no_types, lifting))
    show "\<And>x evs. ?P x \<Longrightarrow> ?P (x\<lparr> trace := evs \<rparr>)"
      by (simp add: tracked_trace)
    show "?P (wm_create now wid ''processing'' s)"
      by (simp add: tracked_create create_workflow_def)
  qed
  then show ?thesis
    by (cases r) auto
qed

lemma upload_job_body_facts:
  assumes run: "upload_job_body ag now wid request s = (r, s')"
  shows "case r of
           Inl e \<Rightarrow> tracked wid now s' \<and> (\<forall>w. w \<noteq> wid \<longrightarrow> workflows s' w = workflows s w) \<and>
                    (\<exists>evs. trace s' = trace s @ evs \<and> steady wid 0 98 evs \<and> Create_workflow wid ''processing'' \<in> set evs)
         | Inr u \<Rightarrow>
             \<exists>sp m res. s' = wm_update wid (terminal_update ''completed'' 100 m res) sp \<and>
                tracked wid now sp \<and> (\<forall>w. w \<noteq> wid \<longrightarrow> workflows sp w = workflows s w) \<and>
                (\<exists>pre. trace sp = trace s @ pre \<and> steady wid 0 98 pre \<and> Create_workflow wid ''processing'' \<in> set pre)"
proof -
  let ?P = "\<lambda>x. tracked wid now x \<and> (\<forall>w. w \<noteq> wid \<longrightarrow> workflows x w = workflows s w)"
  have "case r of
           Inl e \<Rightarrow> ?P s' \<and> (\<exists>evs. trace s' = trace s @ evs \<and> steady wid 0 98 evs \<and> Create_workflow wid ''processing'' \<in> set evs)
         | Inr u \<Rightarrow>
             \<exists>sp m res. s' = wm_update wid (terminal_update ''completed'' 100 m res) sp \<and> ?P sp \<and>
                (\<exists>pre. trace sp = trace s @ pre \<and> steady wid 0 98 pre \<and> Create_workflow wid ''processing'' \<in> set pre)"
  proof (rule upload_job_body_run[where P = ?P, OF _ _ _ run])
    show "\<And>kw x. ?P x \<Longrightarrow> ?P (wm_update wid kw x)"
      using tracked_update frame_update by (metis (no_types, lifting))
    show "\<And>x evs. ?P x \<Longrightarrow> ?P (x\<lparr> trace := evs \<rparr>)"
      by (simp add: tracked_trace)
    show "?P (wm_create now wid ''processing'' s)"
      by (simp add: tracked_create create_workflow_def)
  qed
  then show ?thesis
    by (cases r) auto
qed

section \<open>How a job ends\<close>

lemma print_line_written: "stdout ag text = None \<Longrightarrow> print_line ag text s = (Inr (), s)"
  by (simp add: print_line_def)

lemma print_line_raises: "stdout ag text = Some e \<Longrightarrow> print_line ag text s = (Inl (Exception e), s)"
  by (simp add: print_line_def)

lemma search_job_except_cases:
  assumes "search_job_except ag wid e s = (r, s')"
  shows "(stdout ag (search_error_line wid e) = None \<and> stdout ag (traceback_line ag e) = None \<and>
          r = Inr () \<and>
          s' = wm_update wid (terminal_update ''failed'' 0 (''Processing failed: '' @ e)
                                (Error_result wid e ''failed'')) s) \<or>
         ((\<exists>e'. r = Inl (Exception e')) \<and> s' = s)"
  using assms
  by (auto simp: search_job_except_def print_line_def bind_def split: option.splits)

lemma upload_job_except_cases:
  assumes "upload_job_except ag wid e s = (r, s')"
  shows "(stdout ag (upload_error_line wid e) = None \<and> stdout ag (traceback_line ag e) = None \<and>
          r = Inr () \<and>
          s' = wm_update wid (terminal_update ''failed'' 0 (''Upload processing failed: '' @ e)
                                (Error_result wid e ''failed'')) s) \<or>
         ((\<exists>e'. r = Inl (Exception e')) \<and> s' = s)"
  using assms
  by (auto simp: upload_job_except_def print_line_def bind_def split: option.splits)

lemma search_job_body_unfold:
  "search_job_body ag now wid request s =
     (case stdout ag (query_line (normalize_request request)) of
        None \<Rightarrow> search_job_stages ag now wid (normalize_request request) s
      | Some e \<Rightarrow> (Inl (Exception e), s))"
  by (simp add: search_job_body_def search_job_start_def search_job_stages_def print_line_def
        bind_def Let_def split: option.splits)

lemma run_shape:
  assumes "trace s' = trace s @ pre @ tail"
    and "list_all (\<lambda>e. \<not> terminal_write wid e) pre"
    and "sorted (progress_writes wid pre)"
    and "tail = [] \<or> (\<exists>last. tail = [last] \<and> terminal_write wid last)"
    and "r = Inr () \<Longrightarrow> tail \<noteq> []"
    and "r = Inr () \<Longrightarrow> Create_workflow wid ''processing'' \<in> set pre
           \<Longrightarrow> \<exists>w. workflows s' wid = Some w \<and> is_terminal (wf_status w)"
    and "\<forall>w. w \<noteq> wid \<longrightarrow> workflows s' w = workflows s w"
  shows "(\<exists>pre tail. trace s' = trace s @ pre @ tail \<and>
            list_all (\<lambda>e. \<not> terminal_write wid e) pre \<and>
            sorted (progress_writes wid pre) \<and>
            (tail = [] \<or> (\<exists>last. tail = [last] \<and> terminal_write wid last)) \<and>
            (r = Inr () \<longrightarrow> tail \<noteq> []) \<and>
            (r = Inr () \<and> Create_workflow wid ''processing'' \<in> set pre \<longrightarrow>
               (\<exists>w. workflows s' wid = Some w \<and> is_terminal (wf_status w)))) \<and>
         (\<forall>w. w \<noteq> wid \<longrightarrow> workflows s' w = workflows s w)"
  using assms by blast

text \<open>
  A job whose \<open>try\<close> block went as far as \<open>create_workflow\<close>, by the way the block ended:
  it returned, an \<open>Exception\<close> went to the handler, or a \<open>BaseException\<close> passed it.
\<close>

lemma opened_job_ends:
  assumes facts:
      "case rb of
         Inl x \<Rightarrow> tracked wid now sb \<and> (\<forall>w. w \<noteq> wid \<longrightarrow> workflows sb w = workflows s w) \<and>
                  (\<exists>evs. trace sb = trace s @ evs \<and> steady wid 0 98 evs \<and>
                         Create_workflow wid ''processing'' \<in> set evs)
       | Inr u \<Rightarrow>
           \<exists>sp m res. sb = wm_update wid (terminal_update ''completed'' 100 m res) sp \<and>
              tracked wid now sp \<and> (\<forall>w. w \<noteq> wid \<longrightarrow> workflows sp w = workflows s w) \<and>
              (\<exists>pre. trace sp = trace s @ pre \<and> steady wid 0 98 pre \<and>
                     Create_workflow wid ''processing'' \<in> set pre)"
    and returned: "\<And>u. rb = Inr u \<Longrightarrow> r = Inr () \<and> s' = sb"
    and handled: "\<And>e. rb = Inl (Exception e) \<Longrightarrow>
        (\<exists>m res. r = Inr () \<and> s' = wm_update wid (terminal_update ''failed'' 0 m res) sb) \<or>
        ((\<exists>e'. r = Inl (Exception e')) \<and> s' = sb)"
    and passed: "\<And>b. rb = Inl (BaseException b) \<Longrightarrow> r = Inl (BaseException b) \<and> s' = sb"
  shows "(\<exists>pre tail. trace s' = trace s @ pre @ tail \<and>
            list_all (\<lambda>e. \<not> terminal_write wid e) pre \<and>
            sorted (progress_writes wid pre) \<and>
            (tail = [] \<or> (\<exists>last. tail = [last] \<and> terminal_write wid last)) \<and>
            (r = Inr () \<longrightarrow> tail \<noteq> []) \<and>
            (r = Inr () \<and> Create_workflow wid ''processing'' \<in> set pre \<longrightarrow>
               (\<exists>w. workflows s' wid = Some w \<and> is_terminal (wf_status w)))) \<and>
         (\<forall>w. w \<noteq> wid \<longrightarrow> workflows s' w = workflows s w)"
proof (cases rb)
  case (Inr u)
  from facts Inr obtain sp m res pre
    where sb: "sb = wm_update wid (terminal_update ''completed'' 100 m res) sp"
      and tr: "tracked wid now sp" and fr: "\<forall>w. w \<noteq> wid \<longrightarrow> workflows sp w = workflows s w"
      and pre: "trace sp = trace s @ pre" "steady wid 0 98 pre"
    by auto
  let ?kw = "terminal_update ''completed'' 100 m res"
  from returned[OF Inr] have rs: "r = Inr ()" "s' = sb" by simp_all
  have f1: "trace s' = trace s @ pre @ [Update_workflow wid ?kw]"
    using rs sb pre(1) by simp
  have f2: "list_all (\<lambda>e. \<not> terminal_write wid e) pre" and f3: "sorted (progress_writes wid pre)"
    using pre(2) by (simp_all add: steady_def)
  have f4: "[Update_workflow wid ?kw] = [] \<or>
            (\<exists>last. [Update_workflow wid ?kw] = [last] \<and> terminal_write wid last)"
    by (simp add: terminal_update_def is_terminal_def)
  have "workflows s' wid = Some \<lparr> wf_id = wid, wf_status = ''completed'', wf_progress = 100,
      wf_message = m, wf_created_at = now, wf_results = Some res \<rparr>"
    unfolding rs sb by (rule terminal_on_tracked[OF tr])
  then have f6: "\<exists>w. workflows s' wid = Some w \<and> is_terminal (wf_status w)"
    by (simp add: is_terminal_def)
  have f7: "\<forall>w. w \<noteq> wid \<longrightarrow> workflows s' w = workflows s w"
    using fr rs sb by (simp add: update_workflow_def split: option.splits)
  show ?thesis
    by (rule run_shape[OF f1 f2 f3 f4 _ f6 f7]) simp
next
  case (Inl x)
  from facts Inl obtain evs where evs: "trace sb = trace s @ evs" "steady wid 0 98 evs"
    and tr: "tracked wid now sb" and fr: "\<forall>w. w \<noteq> wid \<longrightarrow> workflows sb w = workflows s w"
    by auto
  have f2: "list_all (\<lambda>e. \<not> terminal_write wid e) evs" and f3: "sorted (progress_writes wid evs)"
    using evs(2) by (simp_all add: steady_def)
  have stopped: ?thesis if "r \<noteq> Inr ()" "s' = sb"
  proof -
    have f1: "trace s' = trace s @ evs @ []" using that evs(1) by simp
    have f7: "\<forall>w. w \<noteq> wid \<longrightarrow> workflows s' w = workflows s w" using that fr by simp
    show ?thesis
      by (rule run_shape[OF f1 f2 f3 _ _ _ f7]) (use that in simp_all)
  qed
  show ?thesis
  proof (cases x)
    case (BaseException b)
    with passed[of b] Inl have "r \<noteq> Inr ()" "s' = sb" by simp_all
    then show ?thesis by (rule stopped)
  next
    case (Exception e)
    with handled[of e] Inl consider
        (failed) m res where "r = Inr ()" "s' = wm_update wid (terminal_update ''failed'' 0 m res) sb"
      | (raised) "r \<noteq> Inr ()" "s' = sb"
      by auto
    then show ?thesis
    proof cases
      case raised
      then show ?thesis by (rule stopped)
    next
      case failed
      let ?kw = "terminal_update ''failed'' 0 m res"
      have f1: "trace s' = trace s @ evs @ [Update_workflow wid ?kw]"
        using failed evs(1) by simp
      have f4: "[Update_workflow wid ?kw] = [] \<or>
                (\<exists>last. [Update_workflow wid ?kw] = [last] \<and> terminal_write wid last)"
        by (simp add: terminal_update_def is_terminal_def)
      have "workflows s' wid = Some \<lparr> wf_id = wid, wf_status = ''failed'', wf_progress = 0,
          wf_message = m, wf_created_at = now, wf_results = Some res \<rparr>"
        unfolding failed by (rule terminal_on_tracked[OF tr])
      then have f6: "\<exists>w. workflows s' wid = Some w \<and> is_terminal (wf_status w)"
        by (simp add: is_terminal_def)
      have f7: "\<forall>w. w \<noteq> wid \<longrightarrow> workflows s' w = workflows s w"
        using fr failed by (simp add: update_workflow_def split: option.splits)
      show ?thesis
        by (rule run_shape[OF f1 f2 f3 f4 _ f6 f7]) simp
    qed
  qed
qed

text \<open>
  A search job whose print of the query raised: the handler runs on the state the job
  started from, where \<open>create_workflow\<close> has not been called.
\<close>

lemma unopened_job_ends:
  assumes "(\<exists>m res. r = Inr () \<and> s' = wm_update wid (terminal_update ''failed'' 0 m res) s) \<or>
           ((\<exists>e'. r = Inl (Exception e')) \<and> s' = s)"
  shows "(\<exists>pre tail. trace s' = trace s @ pre @ tail \<and>
            list_all (\<lambda>e. \<not> terminal_write wid e) pre \<and>
            sorted (progress_writes wid pre) \<and>
            (tail = [] \<or> (\<exists>last. tail = [last] \<and> terminal_write wid last)) \<and>
            (r = Inr () \<longrightarrow> tail \<noteq> []) \<and>
            (r = Inr () \<and> Create_workflow wid ''processing'' \<in> set pre \<longrightarrow>
               (\<exists>w. workflows s' wid = Some w \<and> is_terminal (wf_status w)))) \<and>
         (\<forall>w. w \<noteq> wid \<longrightarrow> workflows s' w = workflows s w)"
  using assms
proof
  assume "\<exists>m res. r = Inr () \<and> s' = wm_update wid (terminal_update ''failed'' 0 m res) s"
  then obtain m res where rs: "r = Inr ()" "s' = wm_update wid (terminal_update ''failed'' 0 m res) s"
    by blast
  let ?kw = "terminal_update ''failed'' 0 m res"
  have f1: "trace s' = trace s @ [] @ [Update_workflow wid ?kw]"
    using rs by simp
  have f4: "[Update_workflow wid ?kw] = [] \<or>
            (\<exists>last. [Update_workflow wid ?kw] = [last] \<and> terminal_write wid last)"
    by (simp add: terminal_update_def is_terminal_def)
  have f7: "\<forall>w. w \<noteq> wid \<longrightarrow> workflows s' w = workflows s w"
    using rs by (simp add: update_workflow_def split: option.splits)
  show ?thesis
    by (rule run_shape[OF f1 _ _ f4 _ _ f7]) simp_all
next
  assume a: "(\<exists>e'. r = Inl (Exception e')) \<and> s' = s"
  then have f1: "trace s' = trace s @ [] @ []" by simp
  have f7: "\<forall>w. w \<noteq> wid \<longrightarrow> workflows s' w = workflows s w" using a by simp
  show ?thesis
    by (rule run_shape[OF f1 _ _ _ _ _ f7]) (use a in auto)
qed

section \<open>Properties of the Summarizer\<close>

lemma shorten_for_ui_length: "length (shorten_for_ui s) \<le> 153"
  by (auto simp: shorten_for_ui_def Let_def)

lemma shorten_for_ui_ellipsis: "length (shorten_for_ui (replicate 151 (CHR ''a''))) = 153"
  by code_simp

text \<open>
  Claim C10. On every branch (abstractive, extractive, fallback) the dict returned by
  \<open>SummarizationAgent.process\<close> has \<open>length\<close> equal to the number of characters of
  \<open>summary\<close>, \<open>paper_id\<close> equal to the id of the paper, and at most three key insights;
  the method tag is one of the three.
\<close>

theorem summary_fields:
  "s_length (summarization_process ag paper) = length (s_summary (summarization_process ag paper)) \<and>
   s_paper_id (summarization_process ag paper) = p_id paper \<and>
   length (s_key_insights (summarization_process ag paper)) \<le> 3 \<and>
   s_method (summarization_process ag paper) \<in> {''abstractive'', ''extractive'', ''fallback''}"
  by (auto simp: summarization_process_def generate_abstractive_summary_def
        generate_extractive_summary_def generate_fallback_summary_def extract_key_insights_def Let_def
      split: option.splits bool.splits)

section \<open>Properties of the Extractor\<close>

text \<open>
  Claim C7. The claim asks for one Paper per uploaded file, a fallback Paper standing for a
  file whose extraction fails. With PyMuPDF present, a PDF that cannot be opened makes
  \<open>_extract_from_pdf\<close> return \<open>None\<close>, and \<open>process\<close> appends nothing for it: the
  list returned for this one file is empty.
\<close>

theorem corrupt_pdf_dropped:
  "extraction_process
     \<lparr> pdf_available = True, fitz_open = (\<lambda>path. None), read_text_file = (\<lambda>path. None),
       extract_metadata_from_text = (\<lambda>text. \<lparr> md_title = ''Extracted Document'', md_authors = [],
                                               md_abstract = [], md_doi = [] \<rparr>),
       uuid4 = (\<lambda>path. ''id-of-'' @ path) \<rparr>
     \<lparr> file_paths = [''uploads/corrupt.pdf''], topics = [] \<rparr> = []"
  by (simp add: extraction_process_def extract_from_pdf_def endswith_def lower_def lower_char_def
        upper_letters_def lower_letters_def)

section \<open>Properties of the Narrator\<close>

text \<open>
  Claim C8. The claim asks for at least one artifact on every input, a placeholder standing
  for a rendering that fails. With gTTS present and its call raising,
  \<open>_generate_gtts_audio\<close> returns the empty list and \<open>process\<close> returns it: no artifact
  and no placeholder.
\<close>

theorem failed_rendering_gives_no_artifact:
  "audio_process
     \<lparr> tts_available = True, tts_method = ''gtts'', render = (\<lambda>text filename. False),
       write_placeholder = (\<lambda>filename content. None), audio_uuid = ''u1'' \<rparr>
     \<lparr> syn_synthesis = ''This synthesis analyzes 1 research papers.'', syn_topic_analysis = None,
       syn_paper_count = 1, syn_methodology = Some ''enhanced_synthesis'' \<rparr> = Inr []"
  by (simp add: audio_process_def generate_gtts_audio_def)

text \<open>
  Without a TTS library the placeholder file is written outside any \<open>try\<close>: an error of
  that write leaves the call.
\<close>

lemma placeholder_write_error_propagates:
  "\<not> tts_available ag \<Longrightarrow>
     write_placeholder ag (''audio/synthesis_'' @ audio_uuid ag @ ''.txt'')
       ''Audio generation not available - TTS library not installed'' = Some e
     \<Longrightarrow> audio_process ag syn = Inl e"
  by (simp add: audio_process_def)

section \<open>Properties of the background jobs\<close>

text \<open>
  Claim C3. In every run of a background job (search or upload), the events of the run are
  a sequence \<open>pre\<close> followed by at most one last event: no event of \<open>pre\<close> puts the record
  of the job into a terminal state, the progress values \<open>pre\<close> writes to the record never
  decrease, and the last event, when there is one, is the write that makes the record
  terminal (completed, or failed after an exception), so the job writes nothing after it.
  A job that returns has made that last write, and if it had created its record the record
  then holds a terminal status. The run changes no record but its own: a job is the only
  writer of its record. \<open>update_workflow\<close> itself has no guard; the property rests on what
  the jobs write.
\<close>

theorem progress_monotone_until_terminal:
  assumes "run_task ag now t s = (r, s')"
  shows "(\<exists>pre tail. trace s' = trace s @ pre @ tail \<and>
            list_all (\<lambda>e. \<not> terminal_write (task_id t) e) pre \<and>
            sorted (progress_writes (task_id t) pre) \<and>
            (tail = [] \<or> (\<exists>last. tail = [last] \<and> terminal_write (task_id t) last)) \<and>
            (r = Inr () \<longrightarrow> tail \<noteq> []) \<and>
            (r = Inr () \<and> Create_workflow (task_id t) ''processing'' \<in> set pre \<longrightarrow>
               (\<exists>w. workflows s' (task_id t) = Some w \<and> is_terminal (wf_status w)))) \<and>
         (\<forall>w. w \<noteq> task_id t \<longrightarrow> workflows s' w = workflows s w)"
proof (cases t)
  case (Search_background wid request)
  with assms have run: "process_search_background ag now wid request s = (r, s')"
    by (simp add: run_task_def)
  show ?thesis
  proof (cases "stdout ag (query_line (normalize_request request))")
    case (Some e1)
    then have "search_job_body ag now wid request s = (Inl (Exception e1), s)"
      by (simp add: search_job_body_unfold)
    with run have "search_job_except ag wid e1 s = (r, s')"
      by (simp add: process_search_background_def)
    from search_job_except_cases[OF this]
    have "(\<exists>m res. r = Inr () \<and> s' = wm_update wid (terminal_update ''failed'' 0 m res) s) \<or>
          ((\<exists>e'. r = Inl (Exception e')) \<and> s' = s)"
      by blast
    from unopened_job_ends[OF this] show ?thesis
      using Search_background by simp
  next
    case None
    obtain rb sb where stages: "search_job_stages ag now wid (normalize_request request) s = (rb, sb)"
      by (meson surj_pair)
    with None have body: "search_job_body ag now wid request s = (rb, sb)"
      by (simp add: search_job_body_unfold)
    show ?thesis
      unfolding Search_background task_id.simps
    proof (rule opened_job_ends[OF search_job_stages_facts[OF stages]])
      fix u assume "rb = Inr u"
      with run body show "r = Inr () \<and> s' = sb"
        by (auto simp: process_search_background_def)
    next
      fix e assume "rb = Inl (Exception e)"
      with run body have "search_job_except ag wid e sb = (r, s')"
        by (simp add: process_search_background_def)
      from search_job_except_cases[OF this]
      show "(\<exists>m res. r = Inr () \<and> s' = wm_update wid (terminal_update ''failed'' 0 m res) sb) \<or>
            ((\<exists>e'. r = Inl (Exception e')) \<and> s' = sb)"
        by blast
    next
      fix b assume "rb = Inl (BaseException b)"
      with run body show "r = Inl (BaseException b) \<and> s' = sb"
        by (auto simp: process_search_background_def)
    qed
  qed
next
  case (Upload_background wid request)
  with assms have run: "process_upload_background ag now wid request s = (r, s')"
    by (simp add: run_task_def)
  obtain rb sb where body: "upload_job_body ag now wid request s = (rb, sb)"
    by (meson surj_pair)
  show ?thesis
    unfolding Upload_background task_id.simps
  proof (rule opened_job_ends[OF upload_job_body_facts[OF body]])
    fix u assume "rb = Inr u"
    with run body show "r = Inr () \<and> s' = sb"
      by (auto simp: process_upload_background_def)
  next
    fix e assume "rb = Inl (Exception e)"
    with run body have "upload_job_except ag wid e sb = (r, s')"
      by (simp add: process_upload_background_def)
    from upload_job_except_cases[OF this]
    show "(\<exists>m res. r = Inr () \<and> s' = wm_update wid (terminal_update ''failed'' 0 m res) sb) \<or>
          ((\<exists>e'. r = Inl (Exception e')) \<and> s' = sb)"
      by blast
  next
    fix b assume "rb = Inl (BaseException b)"
    with run body show "r = Inl (BaseException b) \<and> s' = sb"
      by (auto simp: process_upload_background_def)
  qed
qed

lemma empty_search_run:
  "run_task (agents_finding []) now (Search_background wid \<lparr> search_query = Some q, query = None \<rparr>)
     fresh_orchestrator =
   (Inr (),
    \<lparr> workflows = Map.empty(wid \<mapsto>
         \<lparr> wf_id = wid, wf_status = ''completed'', wf_progress = 100,
           wf_message = ''No papers found'', wf_created_at = now,
           wf_results = Some (empty_result ''No papers found for the search query'') \<rparr>),
      trace = [Create_workflow wid ''processing'',
               Update_workflow wid (progress_message 20 ''Searching ArXiv database...''),
               Agent_call Discovery,
               Update_workflow wid (progress_message 30 ''Found 0 papers''),
               Update_workflow wid
                 (terminal_update ''completed'' 100 ''No papers found''
                    (empty_result ''No papers found for the search query''))] \<rparr>)"
  by (simp add: run_task_def process_search_background_def search_job_body_unfold
        normalize_request_def agents_finding_def search_job_stages_def search_job_rest_def search_job_open_def
        fresh_orchestrator_def run_simps Let_def bind_call str_of_nat_0)

theorem progress_monotone_until_terminal_witness:
  "(\<exists>pre last.
      trace (snd (run_task (agents_finding []) ''2024-01-01T00:00:00''
                    (Search_background ''w1'' \<lparr> search_query = Some ''graphs'', query = None \<rparr>)
                    fresh_orchestrator))
        = trace fresh_orchestrator @ pre @ [last] \<and>
      list_all (\<lambda>e. \<not> terminal_write ''w1'' e) pre \<and>
      sorted (progress_writes ''w1'' pre) \<and>
      terminal_write ''w1'' last \<and>
      Create_workflow ''w1'' ''processing'' \<in> set pre) \<and>
   (\<exists>w. workflows (snd (run_task (agents_finding []) ''2024-01-01T00:00:00''
                    (Search_background ''w1'' \<lparr> search_query = Some ''graphs'', query = None \<rparr>)
                    fresh_orchestrator)) ''w1'' = Some w \<and>
        is_terminal (wf_status w)) \<and>
   workflows (snd (run_task (agents_finding []) ''2024-01-01T00:00:00''
                    (Search_background ''w1'' \<lparr> search_query = Some ''graphs'', query = None \<rparr>)
                    fresh_orchestrator)) ''w2''
     = workflows fresh_orchestrator ''w2''"
proof -
  let ?t = "Search_background ''w1'' \<lparr> search_query = Some ''graphs'', query = None \<rparr>"
  let ?run = "run_task (agents_finding []) ''2024-01-01T00:00:00'' ?t fresh_orchestrator"
  have r: "fst ?run = Inr ()"
    by (simp add: empty_search_run)
  have tr: "trace (snd ?run) =
      [Create_workflow ''w1'' ''processing'',
       Update_workflow ''w1'' (progress_message 20 ''Searching ArXiv database...''),
       Agent_call Discovery,
       Update_workflow ''w1'' (progress_message 30 ''Found 0 papers'')] @
      [Update_workflow ''w1''
         (terminal_update ''completed'' 100 ''No papers found''
            (empty_result ''No papers found for the search query''))]"
    by (simp add: empty_search_run)
  from progress_monotone_until_terminal[OF prod.collapse [symmetric], of "agents_finding []"
         "''2024-01-01T00:00:00''" ?t fresh_orchestrator] r
  obtain pre tail where
        p1: "trace (snd ?run) = trace fresh_orchestrator @ pre @ tail"
    and p2: "list_all (\<lambda>e. \<not> terminal_write ''w1'' e) pre"
    and p3: "sorted (progress_writes ''w1'' pre)"
    and p4: "tail = [] \<or> (\<exists>last. tail = [last] \<and> terminal_write ''w1'' last)"
    and p5: "tail \<noteq> []"
    and p6: "Create_workflow ''w1'' ''processing'' \<in> set pre
               \<Longrightarrow> \<exists>w. workflows (snd ?run) ''w1'' = Some w \<and> is_terminal (wf_status w)"
    and p7: "workflows (snd ?run) ''w2'' = workflows fresh_orchestrator ''w2''"
    by auto
  from p4 p5 obtain last where last: "tail = [last]" "terminal_write ''w1'' last"
    by blast
  from p1 last(1) tr have pre: "pre =
      [Create_workflow ''w1'' ''processing'',
       Update_workflow ''w1'' (progress_message 20 ''Searching ArXiv database...''),
       Agent_call Discovery,
       Update_workflow ''w1'' (progress_message 30 ''Found 0 papers'')]"
    by (simp add: fresh_orchestrator_def)
  then have created: "Create_workflow ''w1'' ''processing'' \<in> set pre"
    by simp
  from p1 last p2 p3 created p6[OF created] p7 show ?thesis
    by blast
qed



section \<open>What the handler of a background job records\<close>

text \<open>
  Claim C6, as the claim states it: whatever is raised inside a background job is caught at
  the top of the job, the record is updated to failed, and nothing leaves the job. Three
  runs of the search job show otherwise. In the first the query holds a character that the
  standard output cannot encode: the print of the query raises before \<open>create_workflow\<close>,
  the handler's update finds no record, and the job returns with no record under its id. In
  the second the Classifier's call is cancelled: the \<open>CancelledError\<close> is not an
  \<open>Exception\<close>, it leaves the job, and the record stays in state processing. In the third
  the Classifier raises an exception whose text cannot be encoded: the handler's own print
  of it raises, the update is not reached, and the record stays in state processing.
\<close>

theorem failure_not_always_recorded:
  "search_job_body (agents_printing []) ''2024-01-01T00:00:00'' ''w1''
       \<lparr> search_query = Some (''graphs '' @ [CHR 0xFF]), query = None \<rparr> fresh_orchestrator
     = (Inl (Exception ''surrogates not allowed''), fresh_orchestrator) \<and>
   fst (process_search_background (agents_printing []) ''2024-01-01T00:00:00'' ''w1''
          \<lparr> search_query = Some (''graphs '' @ [CHR 0xFF]), query = None \<rparr> fresh_orchestrator)
     = Inr () \<and>
   workflows
     (snd (process_search_background (agents_printing []) ''2024-01-01T00:00:00'' ''w1''
             \<lparr> search_query = Some (''graphs '' @ [CHR 0xFF]), query = None \<rparr> fresh_orchestrator))
     ''w1'' = None \<and>
   fst (process_search_background
          (agents_raising (BaseException ''CancelledError'')
             [arxiv_paper ''p1'' ''Deep learning on graphs'' ''A short note.''])
          ''2024-01-01T00:00:00'' ''w2'' \<lparr> search_query = Some ''graphs'', query = None \<rparr>
          fresh_orchestrator)
     = Inl (BaseException ''CancelledError'') \<and>
   map_option wf_status
     (workflows
        (snd (process_search_background
                (agents_raising (BaseException ''CancelledError'')
                   [arxiv_paper ''p1'' ''Deep learning on graphs'' ''A short note.''])
                ''2024-01-01T00:00:00'' ''w2'' \<lparr> search_query = Some ''graphs'', query = None \<rparr>
                fresh_orchestrator))
        ''w2'') = Some ''processing'' \<and>
   fst (process_search_background
          ((agents_raising (Exception (''no topic for '' @ [CHR 0xFF]))
              [arxiv_paper ''p1'' ''Deep learning on graphs'' ''A short note.''])
             \<lparr> stdout := utf8_stdout \<rparr>)
          ''2024-01-01T00:00:00'' ''w3'' \<lparr> search_query = Some ''graphs'', query = None \<rparr>
          fresh_orchestrator)
     = Inl (Exception ''surrogates not allowed'') \<and>
   map_option wf_status
     (workflows
        (snd (process_search_background
                ((agents_raising (Exception (''no topic for '' @ [CHR 0xFF]))
                    [arxiv_paper ''p1'' ''Deep learning on graphs'' ''A short note.''])
                   \<lparr> stdout := utf8_stdout \<rparr>)
                ''2024-01-01T00:00:00'' ''w3'' \<lparr> search_query = Some ''graphs'', query = None \<rparr>
                fresh_orchestrator))
        ''w3'') = Some ''processing''"
  by (simp add: process_search_background_def search_job_body_unfold search_job_stages_def search_job_rest_def
        search_job_open_def search_job_except_def search_error_line_def traceback_line_def
        print_line_def normalize_request_def query_line_def utf8_stdout_def agents_printing_def
        agents_raising_def agents_finding_def fresh_orchestrator_def Let_def
        run_simps bind_call update_workflow_def)

text \<open>
  Claim C6, amended. When an exception of class \<open>Exception\<close> leaves the \<open>try\<close> block
  of a background job after the job has created its record (in the search job: the line that
  prints the query was written; the upload job creates the record before anything can
  raise), and the handler's two prints of the error are written, the job returns normally
  and the record is failed, with progress 0, a message that carries the text of the
  exception, and the error payload. What is raised and is not an \<open>Exception\<close> (a
  cancellation) is not caught: it leaves the job, and the registry stays as the \<open>try\<close>
  block left it.
\<close>

theorem handled_exception_is_recorded:
  "(stdout ag (query_line (normalize_request request)) = None \<and>
    search_job_body ag now wid request s = (Inl (Exception e), s1) \<and>
    stdout ag (search_error_line wid e) = None \<and> stdout ag (traceback_line ag e) = None \<longrightarrow>
      (\<exists>s'. process_search_background ag now wid request s = (Inr (), s') \<and>
            workflows s' wid = Some \<lparr> wf_id = wid, wf_status = ''failed'', wf_progress = 0,
                wf_message = ''Processing failed: '' @ e, wf_created_at = now,
                wf_results = Some (Error_result wid e ''failed'') \<rparr>)) \<and>
   (upload_job_body ag now wid upload s = (Inl (Exception e), s2) \<and>
    stdout ag (upload_error_line wid e) = None \<and> stdout ag (traceback_line ag e) = None \<longrightarrow>
      (\<exists>s'. process_upload_background ag now wid upload s = (Inr (), s') \<and>
            workflows s' wid = Some \<lparr> wf_id = wid, wf_status = ''failed'', wf_progress = 0,
                wf_message = ''Upload processing failed: '' @ e, wf_created_at = now,
                wf_results = Some (Error_result wid e ''failed'') \<rparr>)) \<and>
   (search_job_body ag now wid request s = (Inl (BaseException b), s1) \<longrightarrow>
      process_search_background ag now wid request s = (Inl (BaseException b), s1)) \<and>
   (upload_job_body ag now wid upload s = (Inl (BaseException b), s2) \<longrightarrow>
      process_upload_background ag now wid upload s = (Inl (BaseException b), s2))"
proof (intro conjI impI)
  assume a: "stdout ag (query_line (normalize_request request)) = None \<and>
    search_job_body ag now wid request s = (Inl (Exception e), s1) \<and>
    stdout ag (search_error_line wid e) = None \<and> stdout ag (traceback_line ag e) = None"
  then have "search_job_stages ag now wid (normalize_request request) s = (Inl (Exception e), s1)"
    by (auto simp: search_job_body_unfold)
  from search_job_stages_facts[OF this] have "tracked wid now s1" by simp
  from terminal_on_tracked[OF this] a
  show "\<exists>s'. process_search_background ag now wid request s = (Inr (), s') \<and>
            workflows s' wid = Some \<lparr> wf_id = wid, wf_status = ''failed'', wf_progress = 0,
                wf_message = ''Processing failed: '' @ e, wf_created_at = now,
                wf_results = Some (Error_result wid e ''failed'') \<rparr>"
    by (simp add: process_search_background_def search_job_except_def print_line_written bind_Inr)
next
  assume a: "upload_job_body ag now wid upload s = (Inl (Exception e), s2) \<and>
    stdout ag (upload_error_line wid e) = None \<and> stdout ag (traceback_line ag e) = None"
  then have "upload_job_body ag now wid upload s = (Inl (Exception e), s2)" by simp
  from upload_job_body_facts[OF this] have "tracked wid now s2" by simp
  from terminal_on_tracked[OF this] a
  show "\<exists>s'. process_upload_background ag now wid upload s = (Inr (), s') \<and>
            workflows s' wid = Some \<lparr> wf_id = wid, wf_status = ''failed'', wf_progress = 0,
                wf_message = ''Upload processing failed: '' @ e, wf_created_at = now,
                wf_results = Some (Error_result wid e ''failed'') \<rparr>"
    by (simp add: process_upload_background_def upload_job_except_def print_line_written bind_Inr)
next
  assume "search_job_body ag now wid request s = (Inl (BaseException b), s1)"
  then show "process_search_background ag now wid request s = (Inl (BaseException b), s1)"
    by (simp add: process_search_background_def)
next
  assume "upload_job_body ag now wid upload s = (Inl (BaseException b), s2)"
  then show "process_upload_background ag now wid upload s = (Inl (BaseException b), s2)"
    by (simp add: process_upload_background_def)
qed

lemma classifier_raises_in_body:
  "fst (search_job_body (agents_raising x (paper # rest)) now wid
          \<lparr> search_query = Some q, query = None \<rparr> \<lparr> workflows = W, trace = T \<rparr>) = Inl x"
  "fst (upload_job_body (agents_raising x (paper # rest)) now wid upload
          \<lparr> workflows = W, trace = T \<rparr>) = Inl x"
  by (simp_all add: search_job_body_unfold normalize_request_def search_job_stages_def search_job_rest_def
        search_job_open_def upload_job_body_def Let_def
        agents_raising_def agents_finding_def bind_call bind_Inl)

theorem handled_exception_is_recorded_witness:
  "stdout (agents_raising (Exception ''classifier crashed'')
             [arxiv_paper ''p1'' ''Deep learning on graphs'' ''A short note.''])
     (query_line (normalize_request \<lparr> search_query = Some ''graphs'', query = None \<rparr>)) = None \<and>
   fst (search_job_body
          (agents_raising (Exception ''classifier crashed'')
             [arxiv_paper ''p1'' ''Deep learning on graphs'' ''A short note.''])
          ''2024-01-01T00:00:00'' ''w1'' \<lparr> search_query = Some ''graphs'', query = None \<rparr>
          fresh_orchestrator) = Inl (Exception ''classifier crashed'') \<and>
   (\<exists>s'. process_search_background
            (agents_raising (Exception ''classifier crashed'')
               [arxiv_paper ''p1'' ''Deep learning on graphs'' ''A short note.''])
            ''2024-01-01T00:00:00'' ''w1'' \<lparr> search_query = Some ''graphs'', query = None \<rparr>
            fresh_orchestrator = (Inr (), s') \<and>
         workflows s' ''w1'' = Some \<lparr> wf_id = ''w1'', wf_status = ''failed'', wf_progress = 0,
             wf_message = ''Processing failed: classifier crashed'',
             wf_created_at = ''2024-01-01T00:00:00'',
             wf_results = Some (Error_result ''w1'' ''classifier crashed'' ''failed'') \<rparr>) \<and>
   fst (upload_job_body
          (agents_raising (Exception ''classifier crashed'')
             [arxiv_paper ''p1'' ''Deep learning on graphs'' ''A short note.''])
          ''2024-01-01T00:00:00'' ''w1'' \<lparr> file_paths = [''uploads/note.txt''], topics = [] \<rparr>
          fresh_orchestrator) = Inl (Exception ''classifier crashed'') \<and>
   (\<exists>s'. process_upload_background
            (agents_raising (Exception ''classifier crashed'')
               [arxiv_paper ''p1'' ''Deep learning on graphs'' ''A short note.''])
            ''2024-01-01T00:00:00'' ''w1'' \<lparr> file_paths = [''uploads/note.txt''], topics = [] \<rparr>
            fresh_orchestrator = (Inr (), s') \<and>
         workflows s' ''w1'' = Some \<lparr> wf_id = ''w1'', wf_status = ''failed'', wf_progress = 0,
             wf_message = ''Upload processing failed: classifier crashed'',
             wf_created_at = ''2024-01-01T00:00:00'',
             wf_results = Some (Error_result ''w1'' ''classifier crashed'' ''failed'') \<rparr>) \<and>
   fst (search_job_body
          (agents_raising (BaseException ''CancelledError'')
             [arxiv_paper ''p1'' ''Deep learning on graphs'' ''A short note.''])
          ''2024-01-01T00:00:00'' ''w1'' \<lparr> search_query = Some ''graphs'', query = None \<rparr>
          fresh_orchestrator) = Inl (BaseException ''CancelledError'') \<and>
   fst (process_search_background
          (agents_raising (BaseException ''CancelledError'')
             [arxiv_paper ''p1'' ''Deep learning on graphs'' ''A short note.''])
          ''2024-01-01T00:00:00'' ''w1'' \<lparr> search_query = Some ''graphs'', query = None \<rparr>
          fresh_orchestrator) = Inl (BaseException ''CancelledError'') \<and>
   fst (upload_job_body
          (agents_raising (BaseException ''CancelledError'')
             [arxiv_paper ''p1'' ''Deep learning on graphs'' ''A short note.''])
          ''2024-01-01T00:00:00'' ''w1'' \<lparr> file_paths = [''uploads/note.txt''], topics = [] \<rparr>
          fresh_orchestrator) = Inl (BaseException ''CancelledError'') \<and>
   fst (process_upload_background
          (agents_raising (BaseException ''CancelledError'')
             [arxiv_paper ''p1'' ''Deep learning on graphs'' ''A short note.''])
          ''2024-01-01T00:00:00'' ''w1'' \<lparr> file_paths = [''uploads/note.txt''], topics = [] \<rparr>
          fresh_orchestrator) = Inl (BaseException ''CancelledError'')"
proof -
  let ?papers = "[arxiv_paper ''p1'' ''Deep learning on graphs'' ''A short note.'']"
  let ?ag = "agents_raising (Exception ''classifier crashed'') ?papers"
  let ?ac = "agents_raising (BaseException ''CancelledError'') ?papers"
  let ?rq = "\<lparr> search_query = Some ''graphs'', query = None \<rparr>"
  let ?up = "\<lparr> file_paths = [''uploads/note.txt''], topics = [] \<rparr>"
  let ?now = "''2024-01-01T00:00:00''"
  have out: "stdout ?ag l = None" for l
    by (simp add: agents_raising_def agents_finding_def)
  have f1: "fst (search_job_body ?ag ?now ''w1'' ?rq fresh_orchestrator) = Inl (Exception ''classifier crashed'')"
    and f2: "fst (upload_job_body ?ag ?now ''w1'' ?up fresh_orchestrator) = Inl (Exception ''classifier crashed'')"
    and f3: "fst (search_job_body ?ac ?now ''w1'' ?rq fresh_orchestrator) = Inl (BaseException ''CancelledError'')"
    and f4: "fst (upload_job_body ?ac ?now ''w1'' ?up fresh_orchestrator) = Inl (BaseException ''CancelledError'')"
    unfolding fresh_orchestrator_def by (rule classifier_raises_in_body)+
  have b1: "search_job_body ?ag ?now ''w1'' ?rq fresh_orchestrator
      = (Inl (Exception ''classifier crashed''),
         snd (search_job_body ?ag ?now ''w1'' ?rq fresh_orchestrator))"
    using f1 by (metis prod.collapse)
  have b2: "upload_job_body ?ag ?now ''w1'' ?up fresh_orchestrator
      = (Inl (Exception ''classifier crashed''),
         snd (upload_job_body ?ag ?now ''w1'' ?up fresh_orchestrator))"
    using f2 by (metis prod.collapse)
  have b3: "search_job_body ?ac ?now ''w1'' ?rq fresh_orchestrator
      = (Inl (BaseException ''CancelledError''),
         snd (search_job_body ?ac ?now ''w1'' ?rq fresh_orchestrator))"
    using f3 by (metis prod.collapse)
  have b4: "upload_job_body ?ac ?now ''w1'' ?up fresh_orchestrator
      = (Inl (BaseException ''CancelledError''),
         snd (upload_job_body ?ac ?now ''w1'' ?up fresh_orchestrator))"
    using f4 by (metis prod.collapse)
  from handled_exception_is_recorded
         [of ?ag ?rq ?now "''w1''" fresh_orchestrator "''classifier crashed''"
             "snd (search_job_body ?ag ?now ''w1'' ?rq fresh_orchestrator)" ?up
             "snd (upload_job_body ?ag ?now ''w1'' ?up fresh_orchestrator)"]
       b1 b2 out
  have g1: "\<exists>s'. process_search_background ?ag ?now ''w1'' ?rq fresh_orchestrator = (Inr (), s') \<and>
         workflows s' ''w1'' = Some \<lparr> wf_id = ''w1'', wf_status = ''failed'', wf_progress = 0,
             wf_message = ''Processing failed: classifier crashed'',
             wf_created_at = ''2024-01-01T00:00:00'',
             wf_results = Some (Error_result ''w1'' ''classifier crashed'' ''failed'') \<rparr>"
    and g2: "\<exists>s'. process_upload_background ?ag ?now ''w1'' ?up fresh_orchestrator = (Inr (), s') \<and>
         workflows s' ''w1'' = Some \<lparr> wf_id = ''w1'', wf_status = ''failed'', wf_progress = 0,
             wf_message = ''Upload processing failed: classifier crashed'',
             wf_created_at = ''2024-01-01T00:00:00'',
             wf_results = Some (Error_result ''w1'' ''classifier crashed'' ''failed'') \<rparr>"
    by simp_all
  from handled_exception_is_recorded
         [of ?ac ?rq ?now "''w1''" fresh_orchestrator "''classifier crashed''"
             "snd (search_job_body ?ac ?now ''w1'' ?rq fresh_orchestrator)" ?up
             "snd (upload_job_body ?ac ?now ''w1'' ?up fresh_orchestrator)" "''CancelledError''",
          THEN conjunct2, THEN conjunct2]
       b3 b4 f3 f4
  have g3: "fst (process_search_background ?ac ?now ''w1'' ?rq fresh_orchestrator)
              = Inl (BaseException ''CancelledError'')"
    and g4: "fst (process_upload_background ?ac ?now ''w1'' ?up fresh_orchestrator)
              = Inl (BaseException ''CancelledError'')"
    by simp_all
  from out f1 f2 f3 f4 g1 g2 g3 g4 show ?thesis
    by simp
qed

section \<open>The topics a Summary echoes\<close>

lemma summary_echoes_topics: "s_topics (summarization_process ag paper) = p_topics paper"
  by (auto simp: summarization_process_def generate_abstractive_summary_def
        generate_extractive_summary_def generate_fallback_summary_def Let_def
      split: option.splits bool.splits)

lemma sort_key_Nil: "sort_key f xs = [] \<longleftrightarrow> xs = []"
  using length_sort[of f xs] by (metis length_0_conv)

lemma classification_process_nonempty: "classification_process paper \<noteq> []"
  by (auto simp: classification_process_def fallback_classification_def Let_def sort_key_Nil)

lemma analysis_loop_results:
  "analysis_loop ag wid base noun tot i ps s = (Inr (ps', clss, sms), s')
     \<Longrightarrow> list_all2 (\<lambda>p sm. summarization ag p = Inr sm) ps sms \<and>
         list_all2 (\<lambda>p c. classification ag p = Inr c) ps clss \<and>
         map p_topics ps' = clss"
proof (induction ps arbitrary: i s ps' clss sms s')
  case Nil
  then show ?case by simp
next
  case (Cons paper rest)
  from Cons.prems obtain c where c: "classification ag paper = Inr c"
    by (cases "classification ag paper") (auto simp: Let_def bind_call bind_Inl)
  from Cons.prems c obtain m where m: "summarization ag paper = Inr m"
    by (cases "summarization ag paper") (auto simp: Let_def bind_call bind_Inl)
  let ?s3 = "wm_update wid (progress_message (base + i * 35 div tot)
               (''Analyzing '' @ noun @ '' '' @ str_of_nat (i + 1) @ ''/'' @ str_of_nat tot @
                '': '' @ take 50 (p_title paper) @ ''...'')) s
             \<lparr> trace := trace s @
                 [Update_workflow wid (progress_message (base + i * 35 div tot)
                    (''Analyzing '' @ noun @ '' '' @ str_of_nat (i + 1) @ ''/'' @ str_of_nat tot @
                     '': '' @ take 50 (p_title paper) @ ''...'')),
                  Agent_call Classification, Agent_call Summarization] \<rparr>"
  obtain r0 s1 where loop: "analysis_loop ag wid base noun tot (Suc i) rest ?s3 = (r0, s1)"
    by (meson surj_pair)
  from Cons.prems c m loop obtain ps0 clss0 sms0 where
    r0: "r0 = Inr (ps0, clss0, sms0)"
    and out: "ps' = paper\<lparr> p_topics := c \<rparr> # ps0" "clss = c # clss0" "sms = m # sms0"
    by (cases r0) (auto simp: Let_def bind_call bind_loop bind_Inl)
  from Cons.IH[OF loop[unfolded r0]] c m out show ?case by simp
qed

text \<open>
  Claim C1. The claim asks that the topics of a paper be assigned before its Summarizer call,
  so that the Summary echoes the Classifier's topics. In the background job of a search (and
  of an upload, the same loop) the Summarizer is called first and the topics assigned after:
  for a paper as the Source builds it, with no topics yet, the stored Summary echoes the
  empty list while the Classifier returned a non-empty one, which the stored paper carries.
\<close>

theorem summary_misses_classifier_topics:
  "map_option (\<lambda>r. (map s_topics (res_summaries r), res_classifications r, map pd_topics (res_papers r)))
     (stored_result
        (snd (process_search_background
                (agents_finding [arxiv_paper ''p1'' ''Deep learning on graphs'' ''A short note.''])
                ''2024-01-01T00:00:00'' ''w1'' \<lparr> search_query = Some ''graphs'', query = None \<rparr>
                fresh_orchestrator))
        ''w1'')
   = Some ([[]],
           [classification_process (arxiv_paper ''p1'' ''Deep learning on graphs'' ''A short note.'')],
           [classification_process (arxiv_paper ''p1'' ''Deep learning on graphs'' ''A short note.'')]) \<and>
   classification_process (arxiv_paper ''p1'' ''Deep learning on graphs'' ''A short note.'') \<noteq> []"
  by (simp add: process_search_background_def search_job_body_unfold normalize_request_def
        search_job_stages_def search_job_rest_def search_job_open_def Let_def
        agents_finding_def fresh_orchestrator_def run_simps bind_call
        stored_result_def finished_result_def paper_to_dict_def
        summary_echoes_topics classification_process_nonempty)
     (simp add: arxiv_paper_def)

text \<open>
  \<open>AgentOrchestrator._process_search_request_direct\<close> runs the same stages in the order the
  claim asks for: there the Summary echoes the Classifier's topics.
\<close>

lemma direct_path_passes_classifier_topics:
  "map_sum id (\<lambda>r. case r of Pipeline_result r \<Rightarrow> (map s_topics (res_summaries r), res_classifications r)
                            | Error_result a b c \<Rightarrow> ([], []))
     (fst (process_search_request_direct
             (agents_finding [arxiv_paper ''p1'' ''Deep learning on graphs'' ''A short note.''])
             \<lparr> search_query = Some ''graphs'', query = None \<rparr> fresh_orchestrator))
   = Inr ([classification_process (arxiv_paper ''p1'' ''Deep learning on graphs'' ''A short note.'')],
          [classification_process (arxiv_paper ''p1'' ''Deep learning on graphs'' ''A short note.'')])"
  by (simp add: process_search_request_direct_def Let_def agents_finding_def fresh_orchestrator_def
        run_simps bind_call finished_result_def summary_echoes_topics)

section \<open>The length of a summary\<close>

text \<open>
  Claim C2. The claim bounds the summary text by 150 characters on every branch. The
  extractive branch, when the prepared text gives one or two sentences, joins them and skips
  the shortening that the other branches apply: this title and abstract give two sentences
  and a summary of 153 characters.
\<close>

theorem two_sentence_summary_exceeds_cap:
  "s_method (summarization_process plain_summarizer
      (arxiv_paper ''p1'' ''Signal decay in deep graph networks''
         ''We study how graph neural networks propagate information across long chains and why the signal fades as depth grows.''))
     = ''extractive'' \<and>
   length (s_summary (summarization_process plain_summarizer
      (arxiv_paper ''p1'' ''Signal decay in deep graph networks''
         ''We study how graph neural networks propagate information across long chains and why the signal fades as depth grows.'')))
     = 153"
  by code_simp

section \<open>Submitting a search and reading its status\<close>




section \<open>Properties of the topic analysis\<close>

lemma lookup_increment:
  "lookup (increment k d) key = lookup d key + (if k = key then 1 else 0)"
  by (induction k d rule: increment.induct) (auto simp: lookup_def)

lemma lookup_foldl_increment:
  "lookup (foldl (\<lambda>d k. increment k d) d ks) key = lookup d key + count_list ks key"
  by (induction ks arbitrary: d) (auto simp: lookup_increment)

lemma pair_keys_short: "length c \<le> 1 \<Longrightarrow> pair_keys c = []"
  by (cases c) auto

lemma lookup_cooccurrence:
  "lookup (foldl (\<lambda>d c. if length c > 1 then foldl (\<lambda>d k. increment k d) d (pair_keys c) else d)
             d clss) key
     = lookup d key + (\<Sum>c\<leftarrow>clss. count_list (pair_keys c) key)"
proof (induction clss arbitrary: d)
  case Nil
  then show ?case by simp
next
  case (Cons c clss)
  show ?case
  proof (cases "length c > 1")
    case True
    from Cons.IH[of "foldl (\<lambda>d k. increment k d) d (pair_keys c)"] True
    show ?thesis by (simp add: lookup_foldl_increment)
  next
    case False
    then have "pair_keys c = []" by (intro pair_keys_short) simp
    with Cons.IH[of d] False show ?thesis by simp
  qed
qed

lemma count_list_map_card:
  "count_list (map f xs) key = card {j. j < length xs \<and> f (xs ! j) = key}"
proof -
  have "count_list (map f xs) key = length (filter (\<lambda>x. f x = key) xs)"
    by (induction xs) auto
  also have "\<dots> = card {j. j < length xs \<and> f (xs ! j) = key}"
    by (rule length_filter_conv_card)
  finally show ?thesis .
qed

lemma count_list_pair_keys:
  "count_list (pair_keys c) key = card {(i, j). i < j \<and> j < length c \<and> c ! i @ ''_'' @ c ! j = key}"
proof (induction c)
  case Nil
  then show ?case by simp
next
  case (Cons t rest)
  let ?S = "{(i, j). i < j \<and> j < length rest \<and> rest ! i @ ''_'' @ rest ! j = key}"
  let ?J = "{j. j < length rest \<and> t @ ''_'' @ rest ! j = key}"
  let ?A = "(\<lambda>j. (0::nat, Suc j)) ` ?J"
  let ?B = "(\<lambda>(i, j). (Suc i, Suc j)) ` ?S"
  have finS: "finite ?S"
    by (rule finite_subset[of _ "{..<length rest} \<times> {..<length rest}"]) auto
  have finJ: "finite ?J" by simp
  have split: "{(i, j). i < j \<and> j < length (t # rest) \<and> (t # rest) ! i @ ''_'' @ (t # rest) ! j = key}
                 = ?A \<union> ?B"
  proof (rule set_eqI, clarify)
    fix i j
    show "((i, j) \<in> {(i, j). i < j \<and> j < length (t # rest) \<and>
                       (t # rest) ! i @ ''_'' @ (t # rest) ! j = key})
          = ((i, j) \<in> ?A \<union> ?B)"
    proof (cases i)
      case 0
      then show ?thesis by (cases j) (auto simp: image_iff)
    next
      case (Suc i')
      then show ?thesis by (cases j) (auto simp: image_iff)
    qed
  qed
  have disj: "?A \<inter> ?B = {}" by auto
  have cardA: "card ?A = card ?J" by (rule card_image) (simp add: inj_on_def)
  have cardB: "card ?B = card ?S" by (rule card_image) (auto simp: inj_on_def)
  have "count_list (pair_keys (t # rest)) key
          = count_list (map (\<lambda>topic2. t @ ''_'' @ topic2) rest) key + count_list (pair_keys rest) key"
    by simp
  also have "\<dots> = card ?J + card ?S"
    by (simp only: count_list_map_card Cons.IH)
  also have "\<dots> = card (?A \<union> ?B)"
    using card_Un_disjoint[OF _ _ disj] finS finJ cardA cardB by simp
  finally show ?case using split by simp
qed

lemma increment_keys:
  "distinct (map fst d) \<Longrightarrow>
     distinct (map fst (increment k d)) \<and> set (map fst (increment k d)) = insert k (set (map fst d))"
  by (induction k d rule: increment.induct) auto

lemma Counter_keys:
  "distinct (map fst d) \<Longrightarrow>
     distinct (map fst (foldl (\<lambda>d k. increment k d) d ks)) \<and>
     set (map fst (foldl (\<lambda>d k. increment k d) d ks)) = set (map fst d) \<union> set ks"
proof (induction ks arbitrary: d)
  case Nil
  then show ?case by simp
next
  case (Cons k ks)
  from increment_keys[OF Cons.prems, of k] Cons.IH[of "increment k d"]
  show ?case by auto
qed

lemma length_Counter: "length (Counter xs) = card (set xs)"
proof -
  from Counter_keys[of "[]" xs]
  have d: "distinct (map fst (Counter xs))" and s: "set (map fst (Counter xs)) = set xs"
    by (simp_all add: Counter_def)
  have "length (Counter xs) = length (map fst (Counter xs))" by simp
  also have "\<dots> = card (set (map fst (Counter xs)))" using d by (simp only: distinct_card)
  finally show ?thesis using s by simp
qed

text \<open>
  Claim C9, as the claim states it: the co-occurrence table is keyed by the unordered pair
  of topics. Two papers carry the same two topics, in opposite orders: the table has two
  keys, one per order, each with count 1, and no key with count 2.
\<close>

theorem cooccurrence_depends_on_order:
  "topic_cooccurrence
     (analyze_topics [arxiv_paper ''p1'' ''Deep nets for vision'' ''A short note.'',
                      arxiv_paper ''p2'' ''Vision with deep nets'' ''A short note.'']
        [[''Machine Learning'', ''Computer Vision''], [''Computer Vision'', ''Machine Learning'']])
   = [(''Machine Learning_Computer Vision'', 1), (''Computer Vision_Machine Learning'', 1)]"
  by (simp add: analyze_topics_def Let_def)

text \<open>
  Claim C9, amended. The co-occurrence table is keyed by the string \<open>topic1_topic2\<close> with
  \<open>topic1\<close> before \<open>topic2\<close> in the classification list of a paper, and the count of a key
  is the number of pairs of positions \<open>i < j\<close>, over all classification lists, whose two
  topics give that key (a key absent from the table counts 0); \<open>total_unique_topics\<close> is
  the number of distinct topic labels across all classifications.
\<close>

theorem cooccurrence_counts_ordered_pairs:
  "lookup (topic_cooccurrence (analyze_topics papers clss)) key
     = (\<Sum>c\<leftarrow>clss. card {(i, j). i < j \<and> j < length c \<and> c ! i @ ''_'' @ c ! j = key}) \<and>
   total_unique_topics (analyze_topics papers clss) = card (set (concat clss))"
proof -
  have "lookup (topic_cooccurrence (analyze_topics papers clss)) key
          = (\<Sum>c\<leftarrow>clss. count_list (pair_keys c) key)"
    using lookup_cooccurrence[of "[]" clss key] by (simp add: analyze_topics_def Let_def lookup_def)
  then show ?thesis
    by (simp add: count_list_pair_keys analyze_topics_def Let_def length_Counter)
qed

theorem cooccurrence_counts_ordered_pairs_witness:
  "lookup (topic_cooccurrence
             (analyze_topics [arxiv_paper ''p1'' ''Deep nets for vision'' ''A short note.'']
                [[''Machine Learning'', ''Computer Vision'']]))
          ''Machine Learning_Computer Vision''
     = (\<Sum>c\<leftarrow>[[''Machine Learning'', ''Computer Vision'']].
           card {(i, j). i < j \<and> j < length c \<and> c ! i @ ''_'' @ c ! j = ''Machine Learning_Computer Vision''}) \<and>
   total_unique_topics
     (analyze_topics [arxiv_paper ''p1'' ''Deep nets for vision'' ''A short note.'']
        [[''Machine Learning'', ''Computer Vision'']]) = 2"
  using cooccurrence_counts_ordered_pairs
          [of "[arxiv_paper ''p1'' ''Deep nets for vision'' ''A short note.'']"
              "[[''Machine Learning'', ''Computer Vision'']]" "''Machine Learning_Computer Vision''"]
  by simp

end
